theory Spec2Isabelle
  imports Main "HOL-Library.Char_ord" "HOL-Library.List_Lexorder"
begin

section \<open>Dates, times and number formatting\<close>

text \<open>
  A Python \<^verbatim>\<open>datetime.date\<close> is a triple of year, month and day. Python keeps
  \<open>1 \<le> year \<le> 9999\<close>, \<open>1 \<le> month \<le> 12\<close> and \<open>1 \<le> day \<le> 31\<close>.
\<close>

record date =
  year :: nat
  month :: nat
  day :: nat

definition valid_date :: "date \<Rightarrow> bool" where
  "valid_date d \<longleftrightarrow> 1 \<le> year d \<and> year d \<le> 9999 \<and> 1 \<le> month d \<and> month d \<le> 12
     \<and> 1 \<le> day d \<and> day d \<le> 31"

text \<open>Decimal digits of a natural number, as \<^verbatim>\<open>str(n)\<close> prints them.\<close>

definition digit_char :: "nat \<Rightarrow> char" where
  "digit_char n = ''0123456789'' ! n"

fun dec :: "nat \<Rightarrow> string" where
  "dec n = (if n < 10 then [digit_char n] else dec (n div 10) @ [digit_char (n mod 10)])"

declare dec.simps [simp del]

definition zfill :: "nat \<Rightarrow> string \<Rightarrow> string" where
  "zfill w s = replicate (w - length s) CHR ''0'' @ s"

text \<open>
  The format specification \<^verbatim>\<open>{n:0wd}\<close> of an f-string: the sign first, then zeros up to
  a total width of \<open>w\<close>; a number with more digits is printed in full.
\<close>

definition format_0d :: "nat \<Rightarrow> int \<Rightarrow> string" where
  "format_0d w n =
     (if n < 0 then CHR ''-'' # zfill (w - 1) (dec (nat (- n))) else zfill w (dec (nat n)))"

text \<open>\<^verbatim>\<open>today.strftime('%Y%m%d')\<close>, the year printed on four digits.\<close>

definition strftime_Ymd :: "date \<Rightarrow> string" where
  "strftime_Ymd d = zfill 4 (dec (year d)) @ zfill 2 (dec (month d)) @ zfill 2 (dec (day d))"

definition startswith :: "string \<Rightarrow> string \<Rightarrow> bool" where
  "startswith s p \<longleftrightarrow> take (length p) s = p"

section \<open>Appointments\<close>

datatype appt_status =
  Scheduled | Confirmed | Checked_in | In_progress | Completed | Cancelled | No_show | Rescheduled

datatype appt_type = New_patient | Follow_up | Routine | Emergency_visit

text \<open>
  A row of the table \<^verbatim>\<open>appointment\<close>. Foreign keys are the primary keys of the rows
  they point to, instants are microseconds, a time of day is microseconds since midnight.
\<close>

record appointment =
  pk :: nat
  appointment_id :: string
  patient :: nat
  doctor :: nat
  appointment_date :: date
  appointment_time :: int
  duration :: int
  status :: appt_status
  appointment_type :: appt_type
  reason_for_visit :: string
  symptoms :: string
  special_instructions :: string
  scheduled_by :: "nat option"
  scheduled_at :: int
  is_confirmed :: bool
  confirmed_at :: "int option"
  checked_in_at :: "int option"
  consultation_start_time :: "int option"
  consultation_end_time :: "int option"
  cancellation_reason :: string
  cancelled_at :: "int option"
  cancelled_by :: "nat option"
  rescheduled_from :: "nat option"
  notes_text :: string
  created_at :: int
  updated_at :: int

subsection \<open>Appointment.generate_appointment_id\<close>

definition ascii_uppercase_digits :: string where
  "ascii_uppercase_digits = ''ABCDEFGHIJKLMNOPQRSTUVWXYZ0123456789''"

text \<open>
  \<^verbatim>\<open>random.choices(population, k=4)\<close> draws four indices into the population; the
  generator is the parameter \<open>rng\<close>, whose \<open>i\<close>-th draw is reduced to an index of the
  36 characters.
\<close>

definition random_choices :: "(nat \<Rightarrow> nat) \<Rightarrow> string \<Rightarrow> nat \<Rightarrow> string" where
  "random_choices rng population k =
     map (\<lambda>i. population ! (rng i mod length population)) [0..<k]"

text \<open>The body of the \<^verbatim>\<open>for attempt in range(max_attempts)\<close> loop, \<open>n\<close> iterations left.\<close>

fun attempt_loop :: "nat \<Rightarrow> string \<Rightarrow> appointment list \<Rightarrow> string option" where
  "attempt_loop 0 date_str appts = None"
| "attempt_loop (Suc n) date_str appts =
     (let today_count = length (filter (\<lambda>a. startswith (appointment_id a) (''APT'' @ date_str)) appts);
          candidate = ''APT'' @ date_str @ format_0d 4 (int today_count + 1)
      in if \<not> list_ex (\<lambda>a. appointment_id a = candidate) appts then Some candidate
         else attempt_loop n date_str appts)"

definition generate_appointment_id :: "date \<Rightarrow> (nat \<Rightarrow> nat) \<Rightarrow> appointment list \<Rightarrow> string" where
  "generate_appointment_id today rng appts =
     (let date_str = strftime_Ymd today;
          max_attempts = 100
      in case attempt_loop max_attempts date_str appts of
           Some new_id \<Rightarrow> new_id
         | None \<Rightarrow>
             (let random_suffix = random_choices rng ascii_uppercase_digits 4
              in ''APT'' @ date_str @ random_suffix))"


section \<open>Clocks and time zones\<close>

text \<open>
  \<^verbatim>\<open>date.toordinal\<close> as Python's \<^verbatim>\<open>datetime\<close> module computes it: the number of the
  day, 1 January of year 1 being day 1.
\<close>

definition is_leap :: "nat \<Rightarrow> bool" where
  "is_leap y \<longleftrightarrow> y mod 4 = 0 \<and> (y mod 100 \<noteq> 0 \<or> y mod 400 = 0)"

definition days_before_year :: "nat \<Rightarrow> nat" where
  "days_before_year y = (y - 1) * 365 + (y - 1) div 4 - (y - 1) div 100 + (y - 1) div 400"

definition days_before_month :: "nat \<Rightarrow> nat \<Rightarrow> nat" where
  "days_before_month y m =
     [0, 31, 59, 90, 120, 151, 181, 212, 243, 273, 304, 334] ! (m - 1)
       + (if m > 2 \<and> is_leap y then 1 else 0)"

definition toordinal :: "date \<Rightarrow> nat" where
  "toordinal d = days_before_year (year d) + days_before_month (year d) (month d) + day d"

definition microseconds_per_day :: int where
  "microseconds_per_day = 86400000000"

text \<open>
  \<^verbatim>\<open>datetime.combine(d, t)\<close> of a date and a naive time of day: a naive date-time, here
  the microseconds on the wall clock since the start of day 0.
\<close>

definition combine :: "date \<Rightarrow> int \<Rightarrow> int" where
  "combine d t = int (toordinal d) * microseconds_per_day + t"

text \<open>
  What the clock calls of one request return. An aware date-time is an instant, in
  microseconds of UTC on the same scale. \<open>tz_offset\<close> is the UTC offset of Django's
  current time zone (the setting \<^verbatim>\<open>TIME_ZONE\<close>, which is not part of the sources),
  \<open>sys_offset\<close> that of the local zone of the process, which \<^verbatim>\<open>datetime.now()\<close>
  reads. Both zones are taken with a fixed offset.
\<close>

record clock =
  utc_now :: int
  tz_offset :: int
  sys_offset :: int

definition timezone_now :: "clock \<Rightarrow> int" where
  "timezone_now c = utc_now c"

definition make_aware :: "clock \<Rightarrow> int \<Rightarrow> int" where
  "make_aware c naive = naive - tz_offset c"

definition datetime_now :: "clock \<Rightarrow> int" where
  "datetime_now c = utc_now c + sys_offset c"

section \<open>Errors\<close>

datatype error = ValidationError string | IntegrityError | Http404 | ValueError

record doctor_row =
  doctor_pk :: nat
  full_name :: string

section \<open>Form validation\<close>

definition active_statuses :: "appt_status list" where
  "active_statuses = [Scheduled, Confirmed, Checked_in]"

text \<open>
  \<^verbatim>\<open>queryset.exclude(pk=k)\<close>; with \<^verbatim>\<open>pk=None\<close> it excludes the rows whose primary key
  is null, and there are none.
\<close>

definition exclude_pk :: "nat option \<Rightarrow> appointment list \<Rightarrow> appointment list" where
  "exclude_pk k rows = (case k of None \<Rightarrow> rows | Some n \<Rightarrow> filter (\<lambda>a. pk a \<noteq> n) rows)"

definition slot_taken :: "appointment list \<Rightarrow> nat \<Rightarrow> date \<Rightarrow> int \<Rightarrow> appointment list" where
  "slot_taken appts doc d t =
     filter (\<lambda>a. doctor a = doc \<and> appointment_date a = d \<and> appointment_time a = t
                 \<and> status a \<in> set active_statuses) appts"

text \<open>
  \<^verbatim>\<open>AppointmentForm.clean\<close>. The three cleaned fields are absent (\<open>None\<close>) when their
  own validation failed; \<open>instance_pk\<close> is \<^verbatim>\<open>self.instance.pk\<close>, \<open>None\<close> for a new
  appointment.
\<close>

definition AppointmentForm_clean ::
  "clock \<Rightarrow> appointment list \<Rightarrow> nat option \<Rightarrow> date option \<Rightarrow> int option
     \<Rightarrow> doctor_row option \<Rightarrow> error + unit" where
  "AppointmentForm_clean c appts instance_pk cleaned_date cleaned_time cleaned_doctor =
     (case (cleaned_date, cleaned_time, cleaned_doctor) of
        (Some d, Some t, Some doc) \<Rightarrow>
          (let appointment_datetime = make_aware c (combine d t)
           in if appointment_datetime < timezone_now c
              then Inl (ValidationError ''Cannot schedule appointments in the past.'')
              else
                (let existing_appointment =
                       exclude_pk instance_pk (slot_taken appts (doctor_pk doc) d t)
                 in if existing_appointment \<noteq> []
                    then Inl (ValidationError
                           (''Dr. '' @ full_name doc @ '' already has an appointment at this time.''))
                    else Inr ()))
      | _ \<Rightarrow> Inr ())"

text \<open>
  \<^verbatim>\<open>AppointmentRescheduleForm.clean\<close>; \<open>appt\<close> is \<^verbatim>\<open>self.appointment\<close>, the
  appointment being rescheduled.
\<close>

definition AppointmentRescheduleForm_clean ::
  "clock \<Rightarrow> appointment list \<Rightarrow> appointment option \<Rightarrow> date option \<Rightarrow> int option
     \<Rightarrow> error + unit" where
  "AppointmentRescheduleForm_clean c appts appt new_date new_time =
     (case (new_date, new_time, appt) of
        (Some d, Some t, Some a) \<Rightarrow>
          (let new_datetime = combine d t
           in if new_datetime < datetime_now c
              then Inl (ValidationError ''Cannot reschedule to a time in the past.'')
              else
                (let existing = exclude_pk (Some (pk a)) (slot_taken appts (doctor a) d t)
                 in if existing \<noteq> []
                    then Inl (ValidationError
                           ''Doctor already has an appointment at this time. Please choose another slot.'')
                    else Inr ()))
      | _ \<Rightarrow> Inr ())"


section \<open>Model methods of Appointment\<close>

definition is_past :: "clock \<Rightarrow> appointment \<Rightarrow> bool" where
  "is_past c a \<longleftrightarrow>
     make_aware c (combine (appointment_date a) (appointment_time a)) < timezone_now c"

definition can_cancel :: "clock \<Rightarrow> appointment \<Rightarrow> bool" where
  "can_cancel c a \<longleftrightarrow> status a \<in> set [Scheduled, Confirmed] \<and> \<not> is_past c a"

definition can_reschedule :: "clock \<Rightarrow> appointment \<Rightarrow> bool" where
  "can_reschedule c a \<longleftrightarrow> status a \<in> set [Scheduled, Confirmed] \<and> \<not> is_past c a"

text \<open>
  \<^verbatim>\<open>self.save()\<close> of a row read from the table: the row with that primary key is
  rewritten, \<^verbatim>\<open>updated_at\<close> (\<^verbatim>\<open>auto_now\<close>) taking the time of the call. The methods
  below leave the columns with a uniqueness constraint as they are.
\<close>

definition save :: "clock \<Rightarrow> appointment \<Rightarrow> appointment list \<Rightarrow> appointment list" where
  "save c a appts =
     map (\<lambda>r. if pk r = pk a then a\<lparr>updated_at := timezone_now c\<rparr> else r) appts"

definition mark_confirmed :: "clock \<Rightarrow> appointment \<Rightarrow> appointment" where
  "mark_confirmed c a =
     a\<lparr>status := Confirmed, is_confirmed := True, confirmed_at := Some (timezone_now c)\<rparr>"

definition mark_checked_in :: "clock \<Rightarrow> appointment \<Rightarrow> appointment" where
  "mark_checked_in c a = a\<lparr>status := Checked_in, checked_in_at := Some (timezone_now c)\<rparr>"

definition start_consultation :: "clock \<Rightarrow> appointment \<Rightarrow> appointment" where
  "start_consultation c a =
     a\<lparr>status := In_progress, consultation_start_time := Some (timezone_now c)\<rparr>"

definition complete_appointment :: "clock \<Rightarrow> appointment \<Rightarrow> appointment" where
  "complete_appointment c a =
     a\<lparr>status := Completed, consultation_end_time := Some (timezone_now c)\<rparr>"

definition cancel_appointment :: "clock \<Rightarrow> string \<Rightarrow> nat option \<Rightarrow> appointment \<Rightarrow> appointment" where
  "cancel_appointment c reason by a =
     a\<lparr>status := Cancelled, cancellation_reason := reason,
       cancelled_at := Some (timezone_now c), cancelled_by := by\<rparr>"

section \<open>Views\<close>

datatype http_method = GET | POST

datatype level = Msg_success | Msg_warning | Msg_error | Msg_info

text \<open>A response is a redirect to a named URL (with its \<^verbatim>\<open>pk\<close> argument) or a rendered template.\<close>

datatype response = Redirect string "nat option" | Render string

type_synonym view_result = "response \<times> (level \<times> string) list \<times> appointment list"

text \<open>\<^verbatim>\<open>get_object_or_404(Appointment, pk=k)\<close>.\<close>

definition get_object :: "appointment list \<Rightarrow> nat \<Rightarrow> appointment option" where
  "get_object appts k = find (\<lambda>a. pk a = k) appts"

subsection \<open>Status transitions\<close>

definition confirm_appointment_view ::
  "clock \<Rightarrow> appointment list \<Rightarrow> nat \<Rightarrow> error + view_result" where
  "confirm_appointment_view c appts k =
     (case get_object appts k of
        None \<Rightarrow> Inl Http404
      | Some appointment \<Rightarrow>
          if status appointment = Scheduled
          then Inr (Redirect ''frontdesk:appointment_detail'' (Some k),
                 [(Msg_success, ''Appointment '' @ appointment_id appointment @ '' confirmed.'')],
                 save c (mark_confirmed c appointment) appts)
          else Inr (Redirect ''frontdesk:appointment_detail'' (Some k),
                 [(Msg_warning, ''Appointment is already confirmed or cannot be confirmed.'')],
                 appts))"

text \<open>\<open>get_full_name\<close> gives the full name of the patient with a primary key.\<close>

definition checkin_appointment_view ::
  "clock \<Rightarrow> (nat \<Rightarrow> string) \<Rightarrow> appointment list \<Rightarrow> nat \<Rightarrow> error + view_result" where
  "checkin_appointment_view c get_full_name appts k =
     (case get_object appts k of
        None \<Rightarrow> Inl Http404
      | Some appointment \<Rightarrow>
          if status appointment \<in> set [Scheduled, Confirmed]
          then Inr (Redirect ''frontdesk:appointment_detail'' (Some k),
                 [(Msg_success, ''Patient '' @ get_full_name (patient appointment) @ '' checked in.'')],
                 save c (mark_checked_in c appointment) appts)
          else Inr (Redirect ''frontdesk:appointment_detail'' (Some k),
                 [(Msg_warning, ''Cannot check in this appointment.'')],
                 appts))"

definition complete_appointment_view ::
  "clock \<Rightarrow> appointment list \<Rightarrow> nat \<Rightarrow> error + view_result" where
  "complete_appointment_view c appts k =
     (case get_object appts k of
        None \<Rightarrow> Inl Http404
      | Some appointment \<Rightarrow>
          if status appointment \<in> set [Checked_in, In_progress]
          then Inr (Redirect ''frontdesk:appointment_detail'' (Some k),
                 [(Msg_success,
                   ''Appointment '' @ appointment_id appointment @ '' marked as completed.'')],
                 save c (complete_appointment c appointment) appts)
          else Inr (Redirect ''frontdesk:appointment_detail'' (Some k),
                 [(Msg_warning, ''Cannot complete this appointment.'')],
                 appts))"

subsection \<open>Cancelling\<close>

text \<open>
  White space as \<^verbatim>\<open>str.strip\<close> sees it among the ASCII characters, and the cleaning of
  a \<^verbatim>\<open>CharField\<close>: the posted text is stripped, and a text with a null character is
  refused.
\<close>

definition is_space :: "char \<Rightarrow> bool" where
  "is_space ch \<longleftrightarrow> of_char ch \<in> set [9, 10, 11, 12, 13, 28, 29, 30, 31, 32 :: nat]"

definition strip :: "string \<Rightarrow> string" where
  "strip s = rev (dropWhile is_space (rev (dropWhile is_space s)))"

definition CharField_clean :: "bool \<Rightarrow> string option \<Rightarrow> string option" where
  "CharField_clean required posted =
     (let v = strip (case posted of None \<Rightarrow> [] | Some x \<Rightarrow> x)
      in if required \<and> v = [] then None
         else if CHR 0x00 \<in> set v then None
         else Some v)"

text \<open>
  \<open>staff\<close> maps a user to the front-desk profile of that user, when there is one
  (\<^verbatim>\<open>FrontDeskStaff.objects.get(user=request.user)\<close>).
\<close>

definition cancel_appointment_view ::
  "clock \<Rightarrow> (nat \<Rightarrow> nat option) \<Rightarrow> appointment list \<Rightarrow> http_method \<Rightarrow> nat
     \<Rightarrow> string option \<Rightarrow> nat \<Rightarrow> error + view_result" where
  "cancel_appointment_view c staff appts method user posted_reason k =
     (case get_object appts k of
        None \<Rightarrow> Inl Http404
      | Some appointment \<Rightarrow>
          if \<not> can_cancel c appointment
          then Inr (Redirect ''frontdesk:appointment_detail'' (Some k),
                 [(Msg_error, ''This appointment cannot be cancelled.'')], appts)
          else if method = POST
          then (case CharField_clean True posted_reason of
                  Some reason \<Rightarrow>
                    (case staff user of
                       Some staff_profile \<Rightarrow>
                         Inr (Redirect ''frontdesk:appointment_list'' None,
                           [(Msg_success,
                             ''Appointment '' @ appointment_id appointment
                               @ '' cancelled successfully.'')],
                           save c (cancel_appointment c reason (Some staff_profile) appointment)
                             appts)
                     | None \<Rightarrow>
                         Inr (Render ''frontdesk/appointment_cancel.html'',
                           [(Msg_error, ''Staff profile not found.'')], appts))
                | None \<Rightarrow> Inr (Render ''frontdesk/appointment_cancel.html'', [], appts))
          else Inr (Render ''frontdesk/appointment_cancel.html'', [], appts))"


subsection \<open>Rescheduling\<close>

text \<open>\<^verbatim>\<open>str(d)\<close> of a date and \<^verbatim>\<open>str(t)\<close> of a time of day, as the f-string prints them.\<close>

definition date_isoformat :: "date \<Rightarrow> string" where
  "date_isoformat d =
     zfill 4 (dec (year d)) @ ''-'' @ zfill 2 (dec (month d)) @ ''-'' @ zfill 2 (dec (day d))"

definition time_isoformat :: "int \<Rightarrow> string" where
  "time_isoformat t =
     (let us = nat t;
          hh = us div 3600000000;
          mm = (us div 60000000) mod 60;
          ss = (us div 1000000) mod 60;
          ff = us mod 1000000
      in zfill 2 (dec hh) @ '':'' @ zfill 2 (dec mm) @ '':'' @ zfill 2 (dec ss)
           @ (if ff \<noteq> 0 then ''.'' @ zfill 6 (dec ff) else []))"

text \<open>
  The constraints of the table: \<^verbatim>\<open>appointment_id\<close> is unique, and so is the triple
  of doctor, date and time (\<^verbatim>\<open>unique_together\<close>), whatever the status of the rows.
\<close>

definition unique_ok :: "appointment \<Rightarrow> appointment list \<Rightarrow> bool" where
  "unique_ok a appts \<longleftrightarrow>
     \<not> list_ex (\<lambda>r. pk r \<noteq> pk a \<and>
          (appointment_id r = appointment_id a \<or>
           (doctor r = doctor a \<and> appointment_date r = appointment_date a
              \<and> appointment_time r = appointment_time a))) appts"

definition next_pk :: "appointment list \<Rightarrow> nat" where
  "next_pk appts = Suc (fold max (map pk appts) 0)"

text \<open>
  \<^verbatim>\<open>Appointment.objects.create(...)\<close> with the keyword arguments the reschedule view
  gives; every other column takes its default. The insertion fails when a constraint
  of the table does.
\<close>

definition objects_create ::
  "clock \<Rightarrow> appointment list \<Rightarrow> appointment \<Rightarrow> date \<Rightarrow> int
     \<Rightarrow> error + appointment \<times> appointment list" where
  "objects_create c appts orig new_date new_time =
     (let row = \<lparr>pk = next_pk appts, appointment_id = [], patient = patient orig,
                 doctor = doctor orig, appointment_date = new_date,
                 appointment_time = new_time, duration = duration orig, status = Scheduled,
                 appointment_type = appointment_type orig,
                 reason_for_visit = reason_for_visit orig, symptoms = symptoms orig,
                 special_instructions = special_instructions orig,
                 scheduled_by = scheduled_by orig, scheduled_at = timezone_now c,
                 is_confirmed = False, confirmed_at = None, checked_in_at = None,
                 consultation_start_time = None, consultation_end_time = None,
                 cancellation_reason = [], cancelled_at = None, cancelled_by = None,
                 rescheduled_from = Some (pk orig), notes_text = [],
                 created_at = timezone_now c, updated_at = timezone_now c\<rparr>
      in if unique_ok row appts then Inr (row, appts @ [row]) else Inl IntegrityError)"

definition save_checked :: "clock \<Rightarrow> appointment \<Rightarrow> appointment list \<Rightarrow> error + appointment list" where
  "save_checked c a appts = (if unique_ok a appts then Inr (save c a appts) else Inl IntegrityError)"

text \<open>
  The posted date and time are given as the form fields parsed them, \<open>None\<close> when a field
  is missing or does not parse; \<open>today\<close> is \<^verbatim>\<open>date.today()\<close>.
\<close>

definition reschedule_appointment_view ::
  "clock \<Rightarrow> date \<Rightarrow> (nat \<Rightarrow> nat) \<Rightarrow> appointment list \<Rightarrow> http_method \<Rightarrow> date option
     \<Rightarrow> int option \<Rightarrow> string option \<Rightarrow> nat \<Rightarrow> error + view_result" where
  "reschedule_appointment_view c today rng appts method new_date new_time posted_reason k =
     (case get_object appts k of
        None \<Rightarrow> Inl Http404
      | Some appointment \<Rightarrow>
          if \<not> can_reschedule c appointment
          then Inr (Redirect ''frontdesk:appointment_detail'' (Some k),
                 [(Msg_error, ''This appointment cannot be rescheduled.'')], appts)
          else if method = POST
          then
            (case (new_date, new_time, CharField_clean False posted_reason,
                   AppointmentRescheduleForm_clean c appts (Some appointment) new_date new_time) of
               (Some d, Some t, Some reason, Inr u) \<Rightarrow>
                 (case objects_create c appts appointment d t of
                    Inl e \<Rightarrow> Inl e
                  | Inr (created, appts1) \<Rightarrow>
                      (let new_appointment =
                             created\<lparr>appointment_id := generate_appointment_id today rng appts1\<rparr>
                       in case save_checked c new_appointment appts1 of
                            Inl e \<Rightarrow> Inl e
                          | Inr appts2 \<Rightarrow>
                              (let old = appointment
                                     \<lparr>status := Rescheduled,
                                      notes_text :=
                                        ''Rescheduled to ''
                                          @ date_isoformat (appointment_date new_appointment)
                                          @ '' '' @ time_isoformat (appointment_time new_appointment)
                                          @ ''. Reason: '' @ reason\<rparr>
                               in Inr (Redirect ''frontdesk:appointment_detail''
                                         (Some (pk new_appointment)),
                                       [(Msg_success,
                                         ''Appointment rescheduled successfully! New appointment ID: ''
                                           @ appointment_id new_appointment)],
                                       save c old appts2))))
             | _ \<Rightarrow> Inr (Render ''frontdesk/appointment_reschedule.html'', [], appts))
          else Inr (Render ''frontdesk/appointment_reschedule.html'', [], appts))"

section \<open>Availability\<close>

record doctor_availability =
  av_doctor :: nat
  av_date :: date
  start_time :: int
  end_time :: int
  is_available :: bool
  max_appointments :: int

record time_slot =
  slot_time :: int
  available :: bool

text \<open>\<^verbatim>\<open>dt.time()\<close> of a naive date-time, and \<^verbatim>\<open>timedelta(minutes=m)\<close>.\<close>

definition time_of :: "int \<Rightarrow> int" where
  "time_of dt = dt mod microseconds_per_day"

definition timedelta_minutes :: "int \<Rightarrow> int" where
  "timedelta_minutes m = m * 60000000"

definition is_booked :: "appointment list \<Rightarrow> doctor_availability \<Rightarrow> int \<Rightarrow> bool" where
  "is_booked appts self t \<longleftrightarrow>
     list_ex (\<lambda>a. doctor a = av_doctor self \<and> appointment_date a = av_date self
                  \<and> appointment_time a = t \<and> status a \<in> set active_statuses) appts"

text \<open>The dictionary that one iteration appends, for the date-time \<open>current_time\<close>.\<close>

definition mk_slot :: "appointment list \<Rightarrow> doctor_availability \<Rightarrow> int \<Rightarrow> time_slot" where
  "mk_slot appts self current_time =
     \<lparr>slot_time = time_of current_time,
      available = \<not> is_booked appts self (time_of current_time)\<rparr>"

text \<open>
  The \<^verbatim>\<open>while current_time < end_time\<close> loop of \<^verbatim>\<open>get_available_time_slots\<close>. With a
  slot duration that is not positive the loop never ends, so the function is partial.
\<close>

partial_function (option) slots_loop ::
  "appointment list \<Rightarrow> doctor_availability \<Rightarrow> int \<Rightarrow> int \<Rightarrow> int \<Rightarrow> time_slot list
     \<Rightarrow> time_slot list option" where
  "slots_loop appts self slot_duration end_dt current_time slots =
     (if current_time < end_dt
      then slots_loop appts self slot_duration end_dt
             (current_time + timedelta_minutes slot_duration)
             (slots @ [mk_slot appts self current_time])
      else Some slots)"

definition get_available_time_slots ::
  "date \<Rightarrow> appointment list \<Rightarrow> doctor_availability \<Rightarrow> int \<Rightarrow> time_slot list option" where
  "get_available_time_slots today appts self slot_duration =
     slots_loop appts self slot_duration (combine today (end_time self))
       (combine today (start_time self)) []"


section \<open>The walk-in queue\<close>

datatype queue_status = Waiting | With_doctor | Queue_completed | Queue_cancelled | Queue_no_show

datatype priority_level = Normal | Urgent | Emergency

text \<open>The text that the column \<^verbatim>\<open>priority\<close> stores for each choice.\<close>

fun priority_value :: "priority_level \<Rightarrow> string" where
  "priority_value Normal = ''normal''"
| "priority_value Urgent = ''urgent''"
| "priority_value Emergency = ''emergency''"

record queue_entry =
  q_pk :: nat
  queue_number :: string
  q_patient :: nat
  q_doctor :: "nat option"
  q_status :: queue_status
  priority :: priority_level
  arrival_time :: int
  estimated_wait_time :: int
  q_reason_for_visit :: string
  q_notes :: string
  added_by :: "nat option"
  queue_date :: date

subsection \<open>Queue.generate_queue_number and enqueueing\<close>

definition generate_queue_number :: "date \<Rightarrow> queue_entry list \<Rightarrow> string" where
  "generate_queue_number today queue =
     (let today_queues = length (filter (\<lambda>q. queue_date q = today) queue)
      in ''Q'' @ strftime_Ymd today @ format_0d 3 (int today_queues + 1))"

record queue_form =
  form_patient :: nat
  form_doctor :: "nat option"
  form_priority :: priority_level
  form_reason_for_visit :: string
  form_notes :: string

text \<open>
  \<^verbatim>\<open>QueueForm.save(commit=False, added_by=...)\<close>: the entry is built and not yet written;
  it has no primary key and no arrival time yet (both are 0 here until the insertion).
\<close>

definition QueueForm_save :: "date \<Rightarrow> queue_entry list \<Rightarrow> queue_form \<Rightarrow> nat option \<Rightarrow> queue_entry" where
  "QueueForm_save today queue form by =
     \<lparr>q_pk = 0, queue_number = generate_queue_number today queue,
      q_patient = form_patient form, q_doctor = form_doctor form, q_status = Waiting,
      priority = form_priority form, arrival_time = 0,
      estimated_wait_time =
        (case form_doctor form of
           None \<Rightarrow> 0
         | Some doc \<Rightarrow>
             int (length (filter (\<lambda>q. q_doctor q = Some doc \<and> q_status q = Waiting
                                        \<and> queue_date q = today) queue)) * 15),
      q_reason_for_visit = form_reason_for_visit form, q_notes = form_notes form,
      added_by = by, queue_date = today\<rparr>"

text \<open>
  \<^verbatim>\<open>queue_entry.save()\<close> of a new entry: an insertion, which the uniqueness of
  \<^verbatim>\<open>queue_number\<close> can refuse; \<^verbatim>\<open>arrival_time\<close> is \<^verbatim>\<open>auto_now_add\<close>.
\<close>

definition queue_insert :: "clock \<Rightarrow> queue_entry \<Rightarrow> queue_entry list \<Rightarrow> error + queue_entry list" where
  "queue_insert c e queue =
     (if list_ex (\<lambda>q. queue_number q = queue_number e) queue then Inl IntegrityError
      else Inr (queue @ [e\<lparr>q_pk := Suc (fold max (map q_pk queue) 0),
                           arrival_time := timezone_now c\<rparr>]))"

text \<open>The valid \<^verbatim>\<open>POST\<close> of \<^verbatim>\<open>add_to_queue_view\<close> by a user with a staff profile.\<close>

definition enqueue ::
  "clock \<Rightarrow> date \<Rightarrow> queue_form \<Rightarrow> nat option \<Rightarrow> queue_entry list \<Rightarrow> error + queue_entry list" where
  "enqueue c today form by queue = queue_insert c (QueueForm_save today queue form by) queue"

text \<open>A sequence of enqueue requests, each with its own clock, date and form.\<close>

fun enqueue_all ::
  "(clock \<times> date \<times> queue_form \<times> nat option) list \<Rightarrow> queue_entry list \<Rightarrow> error + queue_entry list" where
  "enqueue_all [] queue = Inr queue"
| "enqueue_all ((c, today, form, by) # reqs) queue =
     (case enqueue c today form by queue of
        Inl e \<Rightarrow> Inl e
      | Inr queue' \<Rightarrow> enqueue_all reqs queue')"

subsection \<open>The queue listings\<close>

text \<open>
  \<^verbatim>\<open>order_by('priority', 'arrival_time')\<close>: ascending on the stored text of the priority
  (compared as text), then on the arrival time. Rows that agree on both keep the order of
  the table.
\<close>

definition queue_le :: "queue_entry \<Rightarrow> queue_entry \<Rightarrow> bool" where
  "queue_le a b \<longleftrightarrow>
     priority_value (priority a) < priority_value (priority b)
     \<or> (priority_value (priority a) = priority_value (priority b)
          \<and> arrival_time a \<le> arrival_time b)"

fun insert_ordered :: "queue_entry \<Rightarrow> queue_entry list \<Rightarrow> queue_entry list" where
  "insert_ordered x [] = [x]"
| "insert_ordered x (y # ys) = (if queue_le x y then x # y # ys else y # insert_ordered x ys)"

definition order_by_priority_arrival :: "queue_entry list \<Rightarrow> queue_entry list" where
  "order_by_priority_arrival rows = foldr insert_ordered rows []"

definition queue_management_listing :: "date \<Rightarrow> queue_entry list \<Rightarrow> queue_entry list" where
  "queue_management_listing today queue =
     order_by_priority_arrival (filter (\<lambda>q. queue_date q = today) queue)"

definition today_queue_listing :: "date \<Rightarrow> queue_entry list \<Rightarrow> queue_entry list" where
  "today_queue_listing today queue =
     order_by_priority_arrival
       (filter (\<lambda>q. queue_date q = today \<and> q_status q \<in> set [Waiting, With_doctor]) queue)"

text \<open>
  The order that the specification asks for: emergency before urgent before normal, then
  ascending arrival time.
\<close>

fun priority_rank :: "priority_level \<Rightarrow> nat" where
  "priority_rank Emergency = 0"
| "priority_rank Urgent = 1"
| "priority_rank Normal = 2"

definition rank_le :: "queue_entry \<Rightarrow> queue_entry \<Rightarrow> bool" where
  "rank_le a b \<longleftrightarrow>
     priority_rank (priority a) < priority_rank (priority b)
     \<or> (priority_rank (priority a) = priority_rank (priority b)
          \<and> arrival_time a \<le> arrival_time b)"

section \<open>Patient identifiers\<close>

record patient_row =
  patient_pk :: nat
  patient_id :: string

text \<open>\<^verbatim>\<open>s.replace(old, new)\<close> for a pattern \<open>old\<close> that is not empty.\<close>

function replace :: "string \<Rightarrow> string \<Rightarrow> string \<Rightarrow> string" where
  "replace [] old new = []"
| "replace (c # cs) old new =
     (if old \<noteq> [] \<and> startswith (c # cs) old
      then new @ replace (drop (length old - 1) cs) old new
      else c # replace cs old new)"
  by pat_completeness auto
termination
  by (relation "measure (\<lambda>(s, old, new). length s)") auto

text \<open>
  \<^verbatim>\<open>int(s)\<close> on ASCII text: white space around, an optional sign, then decimal digits,
  where single underscores may stand between digits.
\<close>

definition is_digit :: "char \<Rightarrow> bool" where
  "is_digit ch \<longleftrightarrow> 48 \<le> (of_char ch :: nat) \<and> (of_char ch :: nat) \<le> 57"

fun int_digits :: "bool \<Rightarrow> nat \<Rightarrow> string \<Rightarrow> nat option" where
  "int_digits prev acc [] = (if prev then Some acc else None)"
| "int_digits prev acc (ch # cs) =
     (if is_digit ch then int_digits True (acc * 10 + (of_char ch - 48)) cs
      else if ch = CHR ''_'' \<and> prev then int_digits False acc cs
      else None)"

definition py_int :: "string \<Rightarrow> error + int" where
  "py_int s =
     (case strip s of
        [] \<Rightarrow> Inl ValueError
      | ch # cs \<Rightarrow>
          (case (if ch = CHR ''-'' \<or> ch = CHR ''+'' then int_digits False 0 cs
                 else int_digits False 0 (ch # cs)) of
             None \<Rightarrow> Inl ValueError
           | Some n \<Rightarrow> Inr (if ch = CHR ''-'' then - int n else int n)))"

text \<open>\<^verbatim>\<open>Patient.objects.all().order_by('-id').first()\<close>: the row with the greatest primary key.\<close>

fun last_patient :: "patient_row list \<Rightarrow> patient_row option" where
  "last_patient [] = None"
| "last_patient (r # rs) =
     (case last_patient rs of
        None \<Rightarrow> Some r
      | Some m \<Rightarrow> if patient_pk m < patient_pk r then Some r else Some m)"

text \<open>\<^verbatim>\<open>PatientForm.clean_patient_id\<close>; \<open>posted\<close> is the cleaned value of the field.\<close>

definition clean_patient_id :: "patient_row list \<Rightarrow> string \<Rightarrow> error + string" where
  "clean_patient_id patients posted =
     (if posted = []
      then (case last_patient patients of
              Some p \<Rightarrow>
                (case py_int (replace (patient_id p) ''PAT'' []) of
                   Inl e \<Rightarrow> Inl e
                 | Inr last_id \<Rightarrow> Inr (''PAT'' @ format_0d 5 (last_id + 1)))
            | None \<Rightarrow> Inr ''PAT00001'')
      else Inr posted)"

text \<open>
  The model field \<^verbatim>\<open>patient_id\<close> is a \<^verbatim>\<open>CharField(max_length=20, unique=True)\<close> with no
  \<^verbatim>\<open>blank=True\<close>, so the form field is required. Its own cleaning comes first: the
  posted text is stripped, an empty value is refused, and the validators of the length
  and of null characters give their messages together.
\<close>

definition patient_id_field_clean :: "string option \<Rightarrow> string list + string" where
  "patient_id_field_clean posted =
     (let v = strip (case posted of None \<Rightarrow> [] | Some x \<Rightarrow> x)
      in if v = [] then Inl [''This field is required.'']
         else
           (let errors =
                  (if length v > 20
                   then [''Ensure this value has at most 20 characters (it has ''
                           @ dec (length v) @ '').'']
                   else [])
                  @ (if CHR 0x00 \<in> set v then [''Null characters are not allowed.''] else [])
            in if errors \<noteq> [] then Inl errors else Inr v))"

text \<open>
  The cleaning of the field \<^verbatim>\<open>patient_id\<close> by the form: the hook
  \<^verbatim>\<open>clean_patient_id\<close> is called only when the field's own cleaning succeeded, with the
  cleaned value. The result is an exception that leaves the form (\<open>Inl\<close>), the error
  messages recorded for the field, or the cleaned value.
\<close>

definition PatientForm_clean_field_patient_id ::
  "patient_row list \<Rightarrow> string option \<Rightarrow> error + (string list + string)" where
  "PatientForm_clean_field_patient_id patients posted =
     (case patient_id_field_clean posted of
        Inl messages \<Rightarrow> Inr (Inl messages)
      | Inr v \<Rightarrow>
          (case clean_patient_id patients v of
             Inl (ValidationError message) \<Rightarrow> Inr (Inl [message])
           | Inl e \<Rightarrow> Inl e
           | Inr cleaned \<Rightarrow> Inr (Inr cleaned)))"

section \<open>Reading identifiers back\<close>

text \<open>The number that a text of decimal digits stands for.\<close>

definition decimal_value :: "string \<Rightarrow> nat" where
  "decimal_value s = foldl (\<lambda>a ch. a * 10 + (of_char ch - 48)) 0 s"

text \<open>
  The patient identifier as the specification words it: \<^verbatim>\<open>PAT\<close> and, on five digits,
  one more than the numerically highest suffix among all the patient identifiers, or
  \<^verbatim>\<open>PAT00001\<close> when there is no patient.
\<close>

definition highest_suffix_patient_id :: "patient_row list \<Rightarrow> string" where
  "highest_suffix_patient_id patients =
     (if patients = [] then ''PAT00001''
      else ''PAT'' @ format_0d 5
             (int (fold max (map (\<lambda>p. decimal_value (drop 3 (patient_id p))) patients) 0) + 1))"

section \<open>Example data\<close>

text \<open>An appointment row for the examples: the columns that matter are given, the others are fixed.\<close>

definition example_appointment ::
  "nat \<Rightarrow> string \<Rightarrow> nat \<Rightarrow> date \<Rightarrow> int \<Rightarrow> appt_status \<Rightarrow> appointment" where
  "example_appointment k ident doc d t st =
     \<lparr>pk = k, appointment_id = ident, patient = 1, doctor = doc, appointment_date = d,
      appointment_time = t, duration = 30, status = st, appointment_type = Routine,
      reason_for_visit = ''checkup'', symptoms = [], special_instructions = [],
      scheduled_by = Some 1, scheduled_at = 0, is_confirmed = False, confirmed_at = None,
      checked_in_at = None, consultation_start_time = None, consultation_end_time = None,
      cancellation_reason = [], cancelled_at = None, cancelled_by = None,
      rescheduled_from = None, notes_text = [], created_at = 0, updated_at = 0\<rparr>"

definition jan15 :: date where
  "jan15 = \<lparr>year = 2025, month = 1, day = 15\<rparr>"

definition jan20 :: date where
  "jan20 = \<lparr>year = 2025, month = 1, day = 20\<rparr>"

definition morning_window :: doctor_availability where
  "morning_window = \<lparr>av_doctor = 7, av_date = jan20, start_time = 32400000000,
      end_time = 43200000000, is_available = True, max_appointments = 10\<rparr>"

text \<open>Noon of 15 January 2025, in a process whose zones are both UTC.\<close>

definition noon_jan15 :: clock where
  "noon_jan15 = \<lparr>utc_now = combine jan15 43200000000, tz_offset = 0, sys_offset = 0\<rparr>"

text \<open>A scheduled appointment with doctor 7 on 20 January 2025 at 09:30.\<close>

definition booked_0930 :: appointment where
  "booked_0930 = example_appointment 1 ''APT202501150001'' 7 jan20 34200000000 Scheduled"

text \<open>The same instant in a process whose local zone is UTC+05:30 while Django's zone is UTC.\<close>

definition noon_jan15_local_ist :: clock where
  "noon_jan15_local_ist = noon_jan15\<lparr>sys_offset := 19800000000\<rparr>"

text \<open>Noon of 1 February 2025, zones UTC.\<close>

definition feb01 :: date where
  "feb01 = \<lparr>year = 2025, month = 2, day = 1\<rparr>"

definition noon_feb01 :: clock where
  "noon_feb01 = \<lparr>utc_now = combine feb01 43200000000, tz_offset = 0, sys_offset = 0\<rparr>"

definition dr_rao :: doctor_row where
  "dr_rao = \<lparr>doctor_pk = 7, full_name = ''Rao''\<rparr>"

text \<open>A waiting queue entry of 15 January 2025 with a primary key, a priority and an arrival time.\<close>

definition walk_in :: "nat \<Rightarrow> priority_level \<Rightarrow> int \<Rightarrow> queue_entry" where
  "walk_in k p t =
     \<lparr>q_pk = k, queue_number = ''Q20250115'' @ format_0d 3 (int k), q_patient = k,
      q_doctor = None, q_status = Waiting, priority = p, arrival_time = t,
      estimated_wait_time = 0, q_reason_for_visit = [], q_notes = [], added_by = Some 1,
      queue_date = jan15\<rparr>"

text \<open>Two patients: the one registered last has the lower identifier, typed in by hand.\<close>

definition two_patients :: "patient_row list" where
  "two_patients =
     [\<lparr>patient_pk = 1, patient_id = ''PAT00009''\<rparr>, \<lparr>patient_pk = 2, patient_id = ''PAT00003''\<rparr>]"

text \<open>Three enqueue requests: two on 15 January 2025, then one on 1 February 2025.\<close>

definition three_requests :: "(clock \<times> date \<times> queue_form \<times> nat option) list" where
  "three_requests =
     (let form = \<lparr>form_patient = 1, form_doctor = None, form_priority = Normal,
                   form_reason_for_visit = ''fever'', form_notes = []\<rparr>
      in [(noon_jan15, jan15, form, Some 1),
          (noon_jan15\<lparr>utc_now := utc_now noon_jan15 + 60000000\<rparr>, jan15, form, Some 1),
          (noon_feb01, feb01, form, Some 1)])"

text \<open>
  The table after the appointment of 09:30 has been moved to 10:00 of the same day at
  noon of 15 January 2025: the original, marked, and the new appointment.
\<close>

definition rescheduled_rows :: "appointment list" where
  "rescheduled_rows =
     [booked_0930\<lparr>status := Rescheduled,
        notes_text := ''Rescheduled to 2025-01-20 10:00:00. Reason: patient asked'',
        updated_at := utc_now noon_jan15\<rparr>,
      (example_appointment 2 ''APT202501150002'' 7 jan20 36000000000 Scheduled)
        \<lparr>rescheduled_from := Some 1, scheduled_at := utc_now noon_jan15,
         created_at := utc_now noon_jan15, updated_at := utc_now noon_jan15\<rparr>]"

text \<open>The new appointment as the insertion leaves it, before it gets its identifier.\<close>

definition created_row :: appointment where
  "created_row = (example_appointment 2 [] 7 jan20 36000000000 Scheduled)
        \<lparr>rescheduled_from := Some 1, scheduled_at := utc_now noon_jan15,
         created_at := utc_now noon_jan15, updated_at := utc_now noon_jan15\<rparr>"

section \<open>Properties\<close>

subsection \<open>Appointment identifiers\<close>

lemma attempt_loop_Suc:
  "attempt_loop (Suc n) date_str appts =
     (let today_count = length (filter (\<lambda>a. startswith (appointment_id a) (''APT'' @ date_str)) appts);
          candidate = ''APT'' @ date_str @ format_0d 4 (int today_count + 1)
      in if \<not> list_ex (\<lambda>a. appointment_id a = candidate) appts then Some candidate else None)"
proof (induction n)
  case 0
  show ?case by (simp add: Let_def)
next
  case (Suc n)
  show ?case
    by (subst attempt_loop.simps(2)) (simp add: Suc.IH Let_def del: attempt_loop.simps)
qed

lemma length_random_choices: "length (random_choices rng population k) = k"
  by (simp add: random_choices_def)

lemma set_random_choices:
  "population \<noteq> [] \<Longrightarrow> set (random_choices rng population k) \<subseteq> set population"
  by (auto simp: random_choices_def)

text \<open>
  Claim C10. Every iteration of the retry loop of \<^verbatim>\<open>generate_appointment_id\<close> computes
  the same candidate, since the table does not change inside the loop. So the function
  returns \<^verbatim>\<open>APT\<close>, the date and the count of rows with that prefix plus one on four
  digits when no row has that identifier, and otherwise \<^verbatim>\<open>APT\<close>, the date and four
  characters drawn from the upper-case letters and the digits; no other sequential
  candidate is tried.
\<close>

theorem generate_appointment_id_single_candidate:
  "generate_appointment_id today rng appts =
     (let date_str = strftime_Ymd today;
          today_count = length (filter (\<lambda>a. startswith (appointment_id a) (''APT'' @ date_str)) appts);
          candidate = ''APT'' @ date_str @ format_0d 4 (int today_count + 1)
      in if \<not> list_ex (\<lambda>a. appointment_id a = candidate) appts then candidate
         else ''APT'' @ date_str @ random_choices rng ascii_uppercase_digits 4)
   \<and> length (random_choices rng ascii_uppercase_digits 4) = 4
   \<and> set (random_choices rng ascii_uppercase_digits 4) \<subseteq> set ascii_uppercase_digits
   \<and> (\<forall>n. attempt_loop (Suc n) (strftime_Ymd today) appts =
        (let date_str = strftime_Ymd today;
             today_count = length (filter (\<lambda>a. startswith (appointment_id a) (''APT'' @ date_str)) appts);
             candidate = ''APT'' @ date_str @ format_0d 4 (int today_count + 1)
         in if \<not> list_ex (\<lambda>a. appointment_id a = candidate) appts then Some candidate else None))"
proof -
  have 1: "generate_appointment_id today rng appts =
     (let date_str = strftime_Ymd today;
          today_count = length (filter (\<lambda>a. startswith (appointment_id a) (''APT'' @ date_str)) appts);
          candidate = ''APT'' @ date_str @ format_0d 4 (int today_count + 1)
      in if \<not> list_ex (\<lambda>a. appointment_id a = candidate) appts then candidate
         else ''APT'' @ date_str @ random_choices rng ascii_uppercase_digits 4)"
    using attempt_loop_Suc [of 99 "strftime_Ymd today" appts]
    by (simp add: generate_appointment_id_def Let_def)
  have 2: "set (random_choices rng ascii_uppercase_digits 4) \<subseteq> set ascii_uppercase_digits"
    by (rule set_random_choices) (simp add: ascii_uppercase_digits_def)
  have 3: "attempt_loop (Suc n) (strftime_Ymd today) appts =
        (let date_str = strftime_Ymd today;
             today_count = length (filter (\<lambda>a. startswith (appointment_id a) (''APT'' @ date_str)) appts);
             candidate = ''APT'' @ date_str @ format_0d 4 (int today_count + 1)
         in if \<not> list_ex (\<lambda>a. appointment_id a = candidate) appts then Some candidate else None)" for n
    by (simp add: attempt_loop_Suc Let_def del: attempt_loop.simps)
  show ?thesis
    by (intro conjI allI) (rule 1, rule length_random_choices, rule 2, rule 3)
qed

theorem generate_appointment_id_single_candidate_witness:
  "generate_appointment_id jan15 (\<lambda>i. 7 * i) [] = ''APT202501150001''
   \<and> generate_appointment_id jan15 (\<lambda>i. 7 * i + 30)
        [example_appointment 1 ''APT202501150002'' 1 jan20 0 Scheduled] = ''APT202501154BIP''"
proof
  have "(let date_str = strftime_Ymd jan15;
          today_count = length (filter (\<lambda>a. startswith (appointment_id a) (''APT'' @ date_str)) []);
          candidate = ''APT'' @ date_str @ format_0d 4 (int today_count + 1)
      in if \<not> list_ex (\<lambda>a. appointment_id a = candidate) [] then candidate
         else ''APT'' @ date_str @ random_choices (\<lambda>i. 7 * i) ascii_uppercase_digits 4)
       = ''APT202501150001''"
    by code_simp
  with generate_appointment_id_single_candidate [of jan15 "\<lambda>i. 7 * i" "[]", THEN conjunct1]
  show "generate_appointment_id jan15 (\<lambda>i. 7 * i) [] = ''APT202501150001''"
    by (rule trans)
  have "(let date_str = strftime_Ymd jan15;
          today_count = length (filter (\<lambda>a. startswith (appointment_id a) (''APT'' @ date_str))
             [example_appointment 1 ''APT202501150002'' 1 jan20 0 Scheduled]);
          candidate = ''APT'' @ date_str @ format_0d 4 (int today_count + 1)
      in if \<not> list_ex (\<lambda>a. appointment_id a = candidate)
               [example_appointment 1 ''APT202501150002'' 1 jan20 0 Scheduled] then candidate
         else ''APT'' @ date_str @ random_choices (\<lambda>i. 7 * i + 30) ascii_uppercase_digits 4)
       = ''APT202501154BIP''"
    by code_simp
  with generate_appointment_id_single_candidate
         [of jan15 "\<lambda>i. 7 * i + 30"
            "[example_appointment 1 ''APT202501150002'' 1 jan20 0 Scheduled]", THEN conjunct1]
  show "generate_appointment_id jan15 (\<lambda>i. 7 * i + 30)
        [example_appointment 1 ''APT202501150002'' 1 jan20 0 Scheduled] = ''APT202501154BIP''"
    by (rule trans)
qed

subsection \<open>Available time slots\<close>

lemma slot_count_step:
  fixes x td :: int
  assumes "0 < td" "0 < x"
  shows "nat ((x + td - 1) div td) = Suc (nat ((x - td + td - 1) div td))"
proof -
  have "(x + td - 1) div td = (x - 1) div td + 1"
    using assms by (metis add.commute add_diff_eq div_add_self1 less_int_code(1) not_less_iff_gr_or_eq)
  moreover have "0 \<le> (x - 1) div td" using assms by (simp add: pos_imp_zdiv_nonneg_iff)
  ultimately show ?thesis by simp
qed

lemma slots_loop_eq:
  assumes "0 < slot_duration"
  shows "slots_loop appts self slot_duration end_dt cur acc =
     Some (acc @ map (\<lambda>k. mk_slot appts self (cur + int k * timedelta_minutes slot_duration))
                  [0..<nat ((end_dt - cur + timedelta_minutes slot_duration - 1)
                             div timedelta_minutes slot_duration)])"
proof (induction "nat (end_dt - cur)" arbitrary: cur acc rule: less_induct)
  case less
  let ?td = "timedelta_minutes slot_duration"
  have td: "0 < ?td" using assms by (simp add: timedelta_minutes_def)
  show ?case
  proof (cases "cur < end_dt")
    case False
    then have "(end_dt - cur + ?td - 1) div ?td \<le> 0"
    proof (cases "0 \<le> end_dt - cur + ?td - 1")
      case True
      with False have "(end_dt - cur + ?td - 1) div ?td = 0"
        by (intro div_pos_pos_trivial) auto
      then show ?thesis by simp
    next
      case False
      then have "(end_dt - cur + ?td - 1) div ?td < 0"
        using td by (simp add: pos_imp_zdiv_neg_iff)
      then show ?thesis by simp
    qed
    then show ?thesis using False by (subst slots_loop.simps) simp
  next
    case True
    have m: "nat (end_dt - (cur + ?td)) < nat (end_dt - cur)" using True td by linarith
    have n: "nat ((end_dt - cur + ?td - 1) div ?td) = Suc (nat ((end_dt - (cur + ?td) + ?td - 1) div ?td))"
      using slot_count_step [of ?td "end_dt - cur"] td True by (simp add: algebra_simps)
    have "slots_loop appts self slot_duration end_dt cur acc =
        slots_loop appts self slot_duration end_dt (cur + ?td) (acc @ [mk_slot appts self cur])"
      using True by (subst slots_loop.simps) simp
    also have "\<dots> = Some ((acc @ [mk_slot appts self cur]) @
         map (\<lambda>k. mk_slot appts self (cur + ?td + int k * ?td))
           [0..<nat ((end_dt - (cur + ?td) + ?td - 1) div ?td)])"
      by (rule less [OF m])
    also have "\<dots> = Some (acc @ map (\<lambda>k. mk_slot appts self (cur + int k * ?td))
           [0..<nat ((end_dt - cur + ?td - 1) div ?td)])"
      unfolding n by (simp add: upt_conv_Cons map_Suc_upt [symmetric] del: upt_Suc algebra_simps
          flip: map_Suc_upt) (simp add: algebra_simps)
    finally show ?thesis .
  qed
qed



lemma le_div_iff_int:
  fixes k td y :: int
  assumes "0 < td"
  shows "(k * td \<le> y) = (k \<le> y div td)"
proof
  assume "k * td \<le> y"
  then have "(k * td) div td \<le> y div td" using assms by (rule zdiv_mono1)
  then show "k \<le> y div td" using assms by simp
next
  assume "k \<le> y div td"
  then have "k * td \<le> (y div td) * td" using assms by (simp add: mult_right_mono)
  also have "\<dots> \<le> y"
  proof -
    have "y = (y div td) * td + y mod td" by simp
    moreover have "0 \<le> y mod td" using assms by simp
    ultimately show ?thesis by linarith
  qed
  finally show "k * td \<le> y" .
qed

lemma slot_count_iff:
  fixes x td :: int
  assumes "0 < td"
  shows "k < nat ((x + td - 1) div td) \<longleftrightarrow> int k * td < x"
proof -
  have a: "(x + td - 1) div td = (x - 1) div td + 1"
    using assms by (metis add.commute add_diff_eq div_add_self1 less_int_code(1) not_less_iff_gr_or_eq)
  have "int k * td < x \<longleftrightarrow> int k * td \<le> x - 1" by linarith
  also have "\<dots> \<longleftrightarrow> int k \<le> (x - 1) div td"
    using assms by (rule le_div_iff_int)
  also have "\<dots> \<longleftrightarrow> k < nat ((x + td - 1) div td)"
    unfolding a by linarith
  finally show ?thesis by simp
qed

lemma time_of_combine:
  assumes "0 \<le> t" "t < microseconds_per_day"
  shows "time_of (combine today t0 + (t - t0)) = t"
  using assms by (simp add: time_of_def combine_def)

lemma is_booked_iff:
  "is_booked appts self t \<longleftrightarrow>
     (\<exists>a \<in> set appts. doctor a = av_doctor self \<and> appointment_date a = av_date self
        \<and> appointment_time a = t \<and> status a \<in> {Scheduled, Confirmed, Checked_in})"
  by (auto simp: is_booked_def list_ex_iff active_statuses_def)

text \<open>
  Claim C7. For a window whose start and end are times of a day and a positive slot
  duration \<open>d\<close>, \<^verbatim>\<open>get_available_time_slots\<close> returns, in order, the slots that start at
  start, start + d, start + 2d, ... as long as the start is strictly before the end of
  the window, and a slot is booked exactly when an appointment of that doctor and date
  has that start time and a status among scheduled, confirmed and checked in. For the
  window from 09:00 to 12:00 with slots of 30 minutes and one scheduled appointment at
  09:30, the slot of 09:30 is booked and the five others are available.
\<close>

theorem get_available_time_slots_sequence:
  assumes "0 < slot_duration"
    and "0 \<le> start_time self" and "end_time self \<le> microseconds_per_day"
  shows "get_available_time_slots today appts self slot_duration =
      Some (map (\<lambda>k. \<lparr>slot_time = start_time self + int k * (slot_duration * 60000000),
                        available = \<not> is_booked appts self
                          (start_time self + int k * (slot_duration * 60000000))\<rparr>)
              [0..<nat ((end_time self - start_time self + slot_duration * 60000000 - 1)
                          div (slot_duration * 60000000))])
    \<and> (\<forall>k. k < nat ((end_time self - start_time self + slot_duration * 60000000 - 1)
                     div (slot_duration * 60000000))
           \<longleftrightarrow> start_time self + int k * (slot_duration * 60000000) < end_time self)
    \<and> (\<forall>t. is_booked appts self t \<longleftrightarrow>
          (\<exists>a \<in> set appts. doctor a = av_doctor self \<and> appointment_date a = av_date self
             \<and> appointment_time a = t \<and> status a \<in> {Scheduled, Confirmed, Checked_in}))"
proof -
  let ?td = "slot_duration * 60000000"
  let ?s = "start_time self" and ?e = "end_time self"
  let ?n = "nat ((?e - ?s + ?td - 1) div ?td)"
  have td: "0 < ?td" using assms(1) by simp
  have cnt: "k < ?n \<longleftrightarrow> ?s + int k * ?td < ?e" for k
    using slot_count_iff [OF td, of k "?e - ?s"] by linarith
  have slot: "mk_slot appts self (combine today ?s + int k * ?td) =
      \<lparr>slot_time = ?s + int k * ?td, available = \<not> is_booked appts self (?s + int k * ?td)\<rparr>"
    if "k < ?n" for k
  proof -
    have "?s + int k * ?td < ?e" using that cnt by simp
    moreover have "0 \<le> int k * ?td" using td by simp
    ultimately have "0 \<le> ?s + int k * ?td" "?s + int k * ?td < microseconds_per_day"
      using assms(2,3) by linarith+
    from time_of_combine [OF this, of today ?s] show ?thesis
      by (simp add: mk_slot_def)
  qed
  have "get_available_time_slots today appts self slot_duration =
      Some (map (\<lambda>k. mk_slot appts self (combine today ?s + int k * ?td)) [0..<?n])"
    using slots_loop_eq [OF assms(1), of appts self "combine today ?e" "combine today ?s" "[]"]
    by (simp add: get_available_time_slots_def timedelta_minutes_def combine_def)
  also have "\<dots> = Some (map (\<lambda>k. \<lparr>slot_time = ?s + int k * ?td,
                        available = \<not> is_booked appts self (?s + int k * ?td)\<rparr>) [0..<?n])"
    using slot by simp
  finally show ?thesis using cnt is_booked_iff by blast
qed

theorem get_available_time_slots_sequence_witness:
  "get_available_time_slots jan15
      [example_appointment 1 ''APT202501150001'' 7 jan20 34200000000 Scheduled] morning_window 30
    = Some [\<lparr>slot_time = 32400000000, available = True\<rparr>,
            \<lparr>slot_time = 34200000000, available = False\<rparr>,
            \<lparr>slot_time = 36000000000, available = True\<rparr>,
            \<lparr>slot_time = 37800000000, available = True\<rparr>,
            \<lparr>slot_time = 39600000000, available = True\<rparr>,
            \<lparr>slot_time = 41400000000, available = True\<rparr>]"
proof -
  have h: "(0::int) < 30" "0 \<le> start_time morning_window"
    "end_time morning_window \<le> microseconds_per_day"
    by (simp_all add: morning_window_def microseconds_per_day_def)
  have "map (\<lambda>k. \<lparr>slot_time = start_time morning_window + int k * (30 * 60000000),
                        available = \<not> is_booked [example_appointment 1 ''APT202501150001'' 7 jan20 34200000000 Scheduled] morning_window
                          (start_time morning_window + int k * (30 * 60000000))\<rparr>)
              [0..<nat ((end_time morning_window - start_time morning_window + 30 * 60000000 - 1)
                          div (30 * 60000000))]
     = [\<lparr>slot_time = 32400000000, available = True\<rparr>,
            \<lparr>slot_time = 34200000000, available = False\<rparr>,
            \<lparr>slot_time = 36000000000, available = True\<rparr>,
            \<lparr>slot_time = 37800000000, available = True\<rparr>,
            \<lparr>slot_time = 39600000000, available = True\<rparr>,
            \<lparr>slot_time = 41400000000, available = True\<rparr>]"
    by code_simp
  with get_available_time_slots_sequence [OF h, of jan15 "[example_appointment 1 ''APT202501150001'' 7 jan20 34200000000 Scheduled]", THEN conjunct1]
  show ?thesis by simp
qed

subsection \<open>Status transitions and cancellation\<close>

lemma get_object_pk: "get_object appts k = Some a \<Longrightarrow> pk a = k"
  by (auto simp: get_object_def find_Some_iff)

lemma get_object_save_same:
  "get_object appts k = Some a \<Longrightarrow> pk a' = k \<Longrightarrow>
     get_object (save c a' appts) k = Some (a'\<lparr>updated_at := timezone_now c\<rparr>)"
  by (induction appts) (auto simp: get_object_def save_def split: if_splits)

lemma get_object_save_other:
  "j \<noteq> pk a' \<Longrightarrow> get_object (save c a' appts) j = get_object appts j"
  by (induction appts) (auto simp: get_object_def save_def)

lemma length_save: "length (save c a appts) = length appts"
  by (simp add: save_def)

text \<open>
  Claim C6. For an appointment that exists, each status transition is applied only from
  its permitted predecessors: confirm from scheduled, check-in from scheduled or
  confirmed, complete from checked in or in progress. From any other status the view
  returns (it raises nothing), leaves the table as it was and reports a warning.
\<close>

theorem status_transitions_guarded:
  assumes "get_object appts k = Some a"
  shows
   "(status a = Scheduled \<longrightarrow>
       confirm_appointment_view c appts k =
         Inr (Redirect ''frontdesk:appointment_detail'' (Some k),
              [(Msg_success, ''Appointment '' @ appointment_id a @ '' confirmed.'')],
              save c (mark_confirmed c a) appts)
       \<and> get_object (save c (mark_confirmed c a) appts) k =
           Some (a\<lparr>status := Confirmed, is_confirmed := True,
                   confirmed_at := Some (timezone_now c), updated_at := timezone_now c\<rparr>))
    \<and> (status a \<noteq> Scheduled \<longrightarrow>
       confirm_appointment_view c appts k =
         Inr (Redirect ''frontdesk:appointment_detail'' (Some k),
              [(Msg_warning, ''Appointment is already confirmed or cannot be confirmed.'')], appts))
    \<and> (status a \<in> {Scheduled, Confirmed} \<longrightarrow>
       checkin_appointment_view c get_full_name appts k =
         Inr (Redirect ''frontdesk:appointment_detail'' (Some k),
              [(Msg_success, ''Patient '' @ get_full_name (patient a) @ '' checked in.'')],
              save c (mark_checked_in c a) appts)
       \<and> get_object (save c (mark_checked_in c a) appts) k =
           Some (a\<lparr>status := Checked_in, checked_in_at := Some (timezone_now c),
                   updated_at := timezone_now c\<rparr>))
    \<and> (status a \<notin> {Scheduled, Confirmed} \<longrightarrow>
       checkin_appointment_view c get_full_name appts k =
         Inr (Redirect ''frontdesk:appointment_detail'' (Some k),
              [(Msg_warning, ''Cannot check in this appointment.'')], appts))
    \<and> (status a \<in> {Checked_in, In_progress} \<longrightarrow>
       complete_appointment_view c appts k =
         Inr (Redirect ''frontdesk:appointment_detail'' (Some k),
              [(Msg_success, ''Appointment '' @ appointment_id a @ '' marked as completed.'')],
              save c (complete_appointment c a) appts)
       \<and> get_object (save c (complete_appointment c a) appts) k =
           Some (a\<lparr>status := Completed, consultation_end_time := Some (timezone_now c),
                   updated_at := timezone_now c\<rparr>))
    \<and> (status a \<notin> {Checked_in, In_progress} \<longrightarrow>
       complete_appointment_view c appts k =
         Inr (Redirect ''frontdesk:appointment_detail'' (Some k),
              [(Msg_warning, ''Cannot complete this appointment.'')], appts))
    \<and> (\<forall>a' j. j \<noteq> k \<and> pk a' = k \<longrightarrow> get_object (save c a' appts) j = get_object appts j)"
proof -
  have k: "pk a = k" using assms by (rule get_object_pk)
  have 1: "get_object (save c (mark_confirmed c a) appts) k =
           Some (a\<lparr>status := Confirmed, is_confirmed := True,
                   confirmed_at := Some (timezone_now c), updated_at := timezone_now c\<rparr>)"
    using get_object_save_same [OF assms, of "mark_confirmed c a" c] k
    by (simp add: mark_confirmed_def)
  have 2: "get_object (save c (mark_checked_in c a) appts) k =
           Some (a\<lparr>status := Checked_in, checked_in_at := Some (timezone_now c),
                   updated_at := timezone_now c\<rparr>)"
    using get_object_save_same [OF assms, of "mark_checked_in c a" c] k
    by (simp add: mark_checked_in_def)
  have 3: "get_object (save c (complete_appointment c a) appts) k =
           Some (a\<lparr>status := Completed, consultation_end_time := Some (timezone_now c),
                   updated_at := timezone_now c\<rparr>)"
    using get_object_save_same [OF assms, of "complete_appointment c a" c] k
    by (simp add: complete_appointment_def)
  have 4: "\<forall>a' j. j \<noteq> k \<and> pk a' = k \<longrightarrow> get_object (save c a' appts) j = get_object appts j"
    using get_object_save_other by blast
  have 5: "confirm_appointment_view c appts k =
      (if status a = Scheduled
       then Inr (Redirect ''frontdesk:appointment_detail'' (Some k),
              [(Msg_success, ''Appointment '' @ appointment_id a @ '' confirmed.'')],
              save c (mark_confirmed c a) appts)
       else Inr (Redirect ''frontdesk:appointment_detail'' (Some k),
              [(Msg_warning, ''Appointment is already confirmed or cannot be confirmed.'')], appts))"
    using assms by (simp add: confirm_appointment_view_def)
  have 6: "checkin_appointment_view c get_full_name appts k =
      (if status a \<in> {Scheduled, Confirmed}
       then Inr (Redirect ''frontdesk:appointment_detail'' (Some k),
              [(Msg_success, ''Patient '' @ get_full_name (patient a) @ '' checked in.'')],
              save c (mark_checked_in c a) appts)
       else Inr (Redirect ''frontdesk:appointment_detail'' (Some k),
              [(Msg_warning, ''Cannot check in this appointment.'')], appts))"
    using assms by (simp add: checkin_appointment_view_def)
  have 7: "complete_appointment_view c appts k =
      (if status a \<in> {Checked_in, In_progress}
       then Inr (Redirect ''frontdesk:appointment_detail'' (Some k),
              [(Msg_success, ''Appointment '' @ appointment_id a @ '' marked as completed.'')],
              save c (complete_appointment c a) appts)
       else Inr (Redirect ''frontdesk:appointment_detail'' (Some k),
              [(Msg_warning, ''Cannot complete this appointment.'')], appts))"
    using assms by (simp add: complete_appointment_view_def)
  show ?thesis
    unfolding 5 6 7 using 1 2 3 4 by simp
qed

theorem status_transitions_guarded_witness:
  "confirm_appointment_view noon_jan15 [booked_0930] 1 =
      Inr (Redirect ''frontdesk:appointment_detail'' (Some 1),
           [(Msg_success, ''Appointment APT202501150001 confirmed.'')],
           [booked_0930\<lparr>status := Confirmed, is_confirmed := True,
              confirmed_at := Some (utc_now noon_jan15), updated_at := utc_now noon_jan15\<rparr>])
   \<and> checkin_appointment_view noon_jan15 (\<lambda>p. ''Asha Rao'') [booked_0930] 1 =
      Inr (Redirect ''frontdesk:appointment_detail'' (Some 1),
           [(Msg_success, ''Patient Asha Rao checked in.'')],
           [booked_0930\<lparr>status := Checked_in,
              checked_in_at := Some (utc_now noon_jan15), updated_at := utc_now noon_jan15\<rparr>])
   \<and> complete_appointment_view noon_jan15 [booked_0930] 1 =
      Inr (Redirect ''frontdesk:appointment_detail'' (Some 1),
           [(Msg_warning, ''Cannot complete this appointment.'')], [booked_0930])"
proof -
  have h: "get_object [booked_0930] 1 = Some booked_0930"
    by (simp add: get_object_def booked_0930_def example_appointment_def)
  have s: "status booked_0930 = Scheduled" "appointment_id booked_0930 = ''APT202501150001''"
    "pk booked_0930 = 1"
    by (simp_all add: booked_0930_def example_appointment_def)
  show ?thesis
    using status_transitions_guarded [OF h, of noon_jan15 "\<lambda>p. ''Asha Rao''"] s
    by (simp add: save_def mark_confirmed_def mark_checked_in_def timezone_now_def)
qed

text \<open>
  Claim C5. Cancelling an appointment that is already cancelled fails with the error
  message and leaves the table as it was, so the reason, the actor and the time of the
  first cancellation stay. The table changes only when the status is scheduled or
  confirmed and the appointment is not past; a valid request in that state sets the
  status to cancelled and records reason, actor and time, and every later attempt to
  cancel is refused.
\<close>

theorem cancel_appointment_guarded:
  assumes "get_object appts k = Some a"
  shows
   "(status a = Cancelled \<longrightarrow>
       cancel_appointment_view c staff appts method user posted k =
         Inr (Redirect ''frontdesk:appointment_detail'' (Some k),
              [(Msg_error, ''This appointment cannot be cancelled.'')], appts))
    \<and> (\<forall>r m appts'. cancel_appointment_view c staff appts method user posted k = Inr (r, m, appts')
          \<and> appts' \<noteq> appts \<longrightarrow> status a \<in> {Scheduled, Confirmed} \<and> \<not> is_past c a)
    \<and> (\<not> (status a \<in> {Scheduled, Confirmed} \<and> \<not> is_past c a) \<longrightarrow>
       cancel_appointment_view c staff appts method user posted k =
         Inr (Redirect ''frontdesk:appointment_detail'' (Some k),
              [(Msg_error, ''This appointment cannot be cancelled.'')], appts))
    \<and> (\<forall>reason sp. status a \<in> {Scheduled, Confirmed} \<and> \<not> is_past c a \<and> method = POST
          \<and> CharField_clean True posted = Some reason \<and> staff user = Some sp \<longrightarrow>
       cancel_appointment_view c staff appts method user posted k =
         Inr (Redirect ''frontdesk:appointment_list'' None,
              [(Msg_success, ''Appointment '' @ appointment_id a @ '' cancelled successfully.'')],
              save c (cancel_appointment c reason (Some sp) a) appts)
       \<and> get_object (save c (cancel_appointment c reason (Some sp) a) appts) k =
           Some (a\<lparr>status := Cancelled, cancellation_reason := reason,
                   cancelled_at := Some (timezone_now c), cancelled_by := Some sp,
                   updated_at := timezone_now c\<rparr>)
       \<and> (\<forall>c' staff' method' user' posted'.
            cancel_appointment_view c' staff' (save c (cancel_appointment c reason (Some sp) a) appts)
                method' user' posted' k =
              Inr (Redirect ''frontdesk:appointment_detail'' (Some k),
                   [(Msg_error, ''This appointment cannot be cancelled.'')],
                   save c (cancel_appointment c reason (Some sp) a) appts)))"
proof -
  have k: "pk a = k" using assms by (rule get_object_pk)
  have no: "cancel_appointment_view c' staff' rows method' user' posted' k =
         Inr (Redirect ''frontdesk:appointment_detail'' (Some k),
              [(Msg_error, ''This appointment cannot be cancelled.'')], rows)"
    if "get_object rows k = Some b" "\<not> (status b \<in> {Scheduled, Confirmed} \<and> \<not> is_past c' b)"
    for c' staff' rows method' user' posted' b
    using that by (simp add: cancel_appointment_view_def can_cancel_def)
  have 1: "status a = Cancelled \<longrightarrow>
       cancel_appointment_view c staff appts method user posted k =
         Inr (Redirect ''frontdesk:appointment_detail'' (Some k),
              [(Msg_error, ''This appointment cannot be cancelled.'')], appts)"
    using no [OF assms] by simp
  have 2: "\<forall>r m appts'. cancel_appointment_view c staff appts method user posted k = Inr (r, m, appts')
          \<and> appts' \<noteq> appts \<longrightarrow> status a \<in> {Scheduled, Confirmed} \<and> \<not> is_past c a"
    using assms
    by (auto simp: cancel_appointment_view_def can_cancel_def split: if_splits option.splits)
  have 3: "\<not> (status a \<in> {Scheduled, Confirmed} \<and> \<not> is_past c a) \<longrightarrow>
       cancel_appointment_view c staff appts method user posted k =
         Inr (Redirect ''frontdesk:appointment_detail'' (Some k),
              [(Msg_error, ''This appointment cannot be cancelled.'')], appts)"
    using no [OF assms] by blast
  have 4: "cancel_appointment_view c staff appts method user posted k =
         Inr (Redirect ''frontdesk:appointment_list'' None,
              [(Msg_success, ''Appointment '' @ appointment_id a @ '' cancelled successfully.'')],
              save c (cancel_appointment c reason (Some sp) a) appts)
       \<and> get_object (save c (cancel_appointment c reason (Some sp) a) appts) k =
           Some (a\<lparr>status := Cancelled, cancellation_reason := reason,
                   cancelled_at := Some (timezone_now c), cancelled_by := Some sp,
                   updated_at := timezone_now c\<rparr>)
       \<and> (\<forall>c' staff' method' user' posted'.
            cancel_appointment_view c' staff' (save c (cancel_appointment c reason (Some sp) a) appts)
                method' user' posted' k =
              Inr (Redirect ''frontdesk:appointment_detail'' (Some k),
                   [(Msg_error, ''This appointment cannot be cancelled.'')],
                   save c (cancel_appointment c reason (Some sp) a) appts))"
    if h: "status a \<in> {Scheduled, Confirmed}" "\<not> is_past c a" "method = POST"
         "CharField_clean True posted = Some reason" "staff user = Some sp" for reason sp
  proof -
    let ?rows = "save c (cancel_appointment c reason (Some sp) a) appts"
    let ?b = "a\<lparr>status := Cancelled, cancellation_reason := reason,
                   cancelled_at := Some (timezone_now c), cancelled_by := Some sp,
                   updated_at := timezone_now c\<rparr>"
    have a: "cancel_appointment_view c staff appts method user posted k =
         Inr (Redirect ''frontdesk:appointment_list'' None,
              [(Msg_success, ''Appointment '' @ appointment_id a @ '' cancelled successfully.'')],
              ?rows)"
      using assms h by (simp add: cancel_appointment_view_def can_cancel_def)
    have b: "get_object ?rows k = Some ?b"
      using get_object_save_same [OF assms, of "cancel_appointment c reason (Some sp) a" c] k
      by (simp add: cancel_appointment_def)
    have "\<not> (status ?b \<in> {Scheduled, Confirmed} \<and> \<not> is_past c' ?b)" for c'
      by simp
    from no [OF b this] a b show ?thesis by blast
  qed
  show ?thesis using 1 2 3 4 by blast
qed

theorem cancel_appointment_guarded_witness:
  "cancel_appointment_view noon_jan15 (\<lambda>u. Some 3) [booked_0930] POST 5 (Some '' moved away '') 1 =
      Inr (Redirect ''frontdesk:appointment_list'' None,
           [(Msg_success, ''Appointment APT202501150001 cancelled successfully.'')],
           [booked_0930\<lparr>status := Cancelled, cancellation_reason := ''moved away'',
              cancelled_at := Some (utc_now noon_jan15), cancelled_by := Some 3,
              updated_at := utc_now noon_jan15\<rparr>])
   \<and> cancel_appointment_view (noon_jan15\<lparr>utc_now := utc_now noon_jan15 + 1000000\<rparr>) (\<lambda>u. Some 4)
        [booked_0930\<lparr>status := Cancelled, cancellation_reason := ''moved away'',
              cancelled_at := Some (utc_now noon_jan15), cancelled_by := Some 3,
              updated_at := utc_now noon_jan15\<rparr>] POST 6 (Some ''again'') 1 =
      Inr (Redirect ''frontdesk:appointment_detail'' (Some 1),
           [(Msg_error, ''This appointment cannot be cancelled.'')],
           [booked_0930\<lparr>status := Cancelled, cancellation_reason := ''moved away'',
              cancelled_at := Some (utc_now noon_jan15), cancelled_by := Some 3,
              updated_at := utc_now noon_jan15\<rparr>])"
proof -
  have h: "get_object [booked_0930] 1 = Some booked_0930"
    by (simp add: get_object_def booked_0930_def example_appointment_def)
  have s: "status booked_0930 \<in> {Scheduled, Confirmed}"
    "appointment_id booked_0930 = ''APT202501150001''" "pk booked_0930 = 1"
    by (simp_all add: booked_0930_def example_appointment_def)
  have p: "\<not> is_past noon_jan15 booked_0930"
    by (simp add: is_past_def make_aware_def timezone_now_def combine_def toordinal_def
      days_before_year_def days_before_month_def is_leap_def jan15_def jan20_def noon_jan15_def
      booked_0930_def example_appointment_def microseconds_per_day_def)
  have r: "CharField_clean True (Some '' moved away '') = Some ''moved away''"
    by (simp add: CharField_clean_def strip_def is_space_def)
  have e: "save noon_jan15 (cancel_appointment noon_jan15 ''moved away'' (Some 3) booked_0930)
             [booked_0930] =
           [booked_0930\<lparr>status := Cancelled, cancellation_reason := ''moved away'',
              cancelled_at := Some (utc_now noon_jan15), cancelled_by := Some 3,
              updated_at := utc_now noon_jan15\<rparr>]"
    using s(3) by (simp add: save_def cancel_appointment_def timezone_now_def)
  from cancel_appointment_guarded [OF h, of noon_jan15 "\<lambda>u. Some 3" POST 5 "Some '' moved away ''"]
  have "cancel_appointment_view noon_jan15 (\<lambda>u. Some 3) [booked_0930] POST 5 (Some '' moved away '') 1 =
         Inr (Redirect ''frontdesk:appointment_list'' None,
              [(Msg_success, ''Appointment '' @ appointment_id booked_0930 @ '' cancelled successfully.'')],
              save noon_jan15 (cancel_appointment noon_jan15 ''moved away'' (Some 3) booked_0930) [booked_0930])
       \<and> (\<forall>c' staff' method' user' posted'.
            cancel_appointment_view c' staff'
                (save noon_jan15 (cancel_appointment noon_jan15 ''moved away'' (Some 3) booked_0930) [booked_0930])
                method' user' posted' 1 =
              Inr (Redirect ''frontdesk:appointment_detail'' (Some 1),
                   [(Msg_error, ''This appointment cannot be cancelled.'')],
                   save noon_jan15 (cancel_appointment noon_jan15 ''moved away'' (Some 3) booked_0930) [booked_0930]))"
    using s(1) p r by blast
  then show ?thesis unfolding e s(2) by simp
qed

subsection \<open>Validation of a slot\<close>

lemmas clock_simps = is_past_def make_aware_def timezone_now_def datetime_now_def combine_def
  toordinal_def days_before_year_def days_before_month_def is_leap_def microseconds_per_day_def

lemmas example_simps = jan15_def jan20_def feb01_def noon_jan15_def noon_feb01_def noon_jan15_local_ist_def
  booked_0930_def example_appointment_def dr_rao_def

lemma slot_taken_nonempty:
  "slot_taken appts doc d t \<noteq> [] \<longleftrightarrow>
     (\<exists>a \<in> set appts. doctor a = doc \<and> appointment_date a = d \<and> appointment_time a = t
        \<and> status a \<in> {Scheduled, Confirmed, Checked_in})"
  by (auto simp: slot_taken_def filter_empty_conv active_statuses_def)

lemma exclude_slot_taken_nonempty:
  "exclude_pk (Some n) (slot_taken appts doc d t) \<noteq> [] \<longleftrightarrow>
     (\<exists>a \<in> set appts. pk a \<noteq> n \<and> doctor a = doc \<and> appointment_date a = d
        \<and> appointment_time a = t \<and> status a \<in> {Scheduled, Confirmed, Checked_in})"
  by (auto simp: exclude_pk_def slot_taken_def filter_empty_conv active_statuses_def)

text \<open>
  Claim C1, amended. \<^verbatim>\<open>AppointmentForm.clean\<close> for a new appointment rejects a slot
  in the past with the error of the past check, whether the slot is taken or not. A
  slot that is not in the past is rejected with the slot-conflict error exactly when an
  existing appointment of the same doctor, date and time has a status among scheduled,
  confirmed and checked in, and is accepted otherwise.
\<close>

theorem appointment_form_clean_outcome:
  "AppointmentForm_clean c appts None (Some d) (Some t) (Some doc) =
     (if combine d t - tz_offset c < utc_now c
      then Inl (ValidationError ''Cannot schedule appointments in the past.'')
      else if (\<exists>a \<in> set appts. doctor a = doctor_pk doc \<and> appointment_date a = d
                 \<and> appointment_time a = t \<and> status a \<in> {Scheduled, Confirmed, Checked_in})
      then Inl (ValidationError
                 (''Dr. '' @ full_name doc @ '' already has an appointment at this time.''))
      else Inr ())"
  using slot_taken_nonempty [of appts "doctor_pk doc" d t]
  by (simp add: AppointmentForm_clean_def make_aware_def timezone_now_def exclude_pk_def
      del: Let_def)

theorem appointment_form_clean_outcome_witness:
  "AppointmentForm_clean noon_jan15 [booked_0930] None (Some jan20) (Some 34200000000) (Some dr_rao)
     = Inl (ValidationError ''Dr. Rao already has an appointment at this time.'')
   \<and> AppointmentForm_clean noon_jan15 [booked_0930] None (Some jan20) (Some 36000000000) (Some dr_rao)
     = Inr ()"
  using appointment_form_clean_outcome [of noon_jan15 "[booked_0930]" jan20 34200000000 dr_rao]
     appointment_form_clean_outcome [of noon_jan15 "[booked_0930]" jan20 36000000000 dr_rao]
  by (simp add: clock_simps example_simps)

text \<open>
  The claim as it is written fails for a slot that is both taken and in the past: the
  form rejects it with the error of the past check, which comes first.
\<close>

theorem appointment_form_clean_past_conflict:
  "doctor booked_0930 = doctor_pk dr_rao \<and> appointment_date booked_0930 = jan20
   \<and> appointment_time booked_0930 = 34200000000 \<and> status booked_0930 = Scheduled
   \<and> AppointmentForm_clean noon_feb01 [booked_0930] None (Some jan20) (Some 34200000000) (Some dr_rao)
       = Inl (ValidationError ''Cannot schedule appointments in the past.'')
   \<and> AppointmentForm_clean noon_feb01 [booked_0930] None (Some jan20) (Some 34200000000) (Some dr_rao)
       \<noteq> Inl (ValidationError (''Dr. '' @ full_name dr_rao @ '' already has an appointment at this time.''))"
  by (simp add: AppointmentForm_clean_def clock_simps example_simps)

text \<open>When both zones have the same offset, the two forms accept the same slots.\<close>

lemma reschedule_clean_agrees_when_zones_agree:
  assumes "sys_offset c = tz_offset c"
  shows "isl (AppointmentRescheduleForm_clean c appts (Some a) (Some d) (Some t)) \<longleftrightarrow>
     isl (AppointmentForm_clean c appts (Some (pk a)) (Some d) (Some t)
            (Some \<lparr>doctor_pk = doctor a, full_name = name\<rparr>))"
  using assms
  by (auto simp: AppointmentRescheduleForm_clean_def AppointmentForm_clean_def make_aware_def
      timezone_now_def datetime_now_def Let_def)

text \<open>
  Claim C4. The reschedule form compares the naive new date-time with the naive
  \<^verbatim>\<open>datetime.now()\<close> of the process, the schedule form compares the aware date-time
  with \<^verbatim>\<open>timezone.now()\<close>. In a process whose local zone is UTC+05:30 while Django's
  zone is UTC, at 12:00 UTC a slot at 13:00 of the same day is accepted by the schedule
  form and rejected as past by the reschedule form.
\<close>

theorem reschedule_clean_differs_from_schedule_clean:
  "AppointmentForm_clean noon_jan15_local_ist [booked_0930] (Some (pk booked_0930))
       (Some jan15) (Some 46800000000) (Some dr_rao) = Inr ()
   \<and> AppointmentRescheduleForm_clean noon_jan15_local_ist [booked_0930] (Some booked_0930)
       (Some jan15) (Some 46800000000)
       = Inl (ValidationError ''Cannot reschedule to a time in the past.'')
   \<and> doctor booked_0930 = doctor_pk dr_rao"
  by (simp add: AppointmentForm_clean_def AppointmentRescheduleForm_clean_def exclude_pk_def
      slot_taken_def clock_simps example_simps)

subsection \<open>Order of the queue listings\<close>

lemma priority_value_order:
  "priority_value Emergency < priority_value Normal"
  "priority_value Normal < priority_value Urgent"
  by (simp_all add: less_char_def)

lemma queue_le_total: "\<not> queue_le x y \<Longrightarrow> queue_le y x"
  by (auto simp: queue_le_def)

lemma queue_le_trans: "queue_le x y \<Longrightarrow> queue_le y z \<Longrightarrow> queue_le x z"
  by (auto simp: queue_le_def)

lemma set_insert_ordered: "set (insert_ordered x xs) = insert x (set xs)"
  by (induction xs) auto

lemma sorted_insert_ordered:
  "sorted_wrt queue_le xs \<Longrightarrow> sorted_wrt queue_le (insert_ordered x xs)"
  by (induction xs) (auto simp: set_insert_ordered dest: queue_le_total queue_le_trans)

text \<open>What the listings are sorted by: the stored text of the priority, then the arrival time.\<close>

lemma sorted_order_by: "sorted_wrt queue_le (order_by_priority_arrival rows)"
  unfolding order_by_priority_arrival_def
  by (induction rows) (simp_all add: sorted_insert_ordered)

text \<open>
  Claim C2. Both listings order the entries by the stored text of the priority, so that
  an entry with priority normal comes before an entry with priority urgent that arrived
  later: the listing is not sorted by priority rank. An emergency entry does come first,
  as in the scenario with two normal entries before it.
\<close>

theorem queue_listing_normal_before_urgent:
  "queue_management_listing jan15 [walk_in 1 Normal 100, walk_in 2 Urgent 200]
     = [walk_in 1 Normal 100, walk_in 2 Urgent 200]
   \<and> today_queue_listing jan15 [walk_in 1 Normal 100, walk_in 2 Urgent 200]
     = [walk_in 1 Normal 100, walk_in 2 Urgent 200]
   \<and> \<not> sorted_wrt rank_le [walk_in 1 Normal 100, walk_in 2 Urgent 200]
   \<and> queue_management_listing jan15
        [walk_in 1 Normal 100, walk_in 2 Normal 200, walk_in 3 Emergency 300]
     = [walk_in 3 Emergency 300, walk_in 1 Normal 100, walk_in 2 Normal 200]"
  by (simp add: queue_management_listing_def today_queue_listing_def
      order_by_priority_arrival_def queue_le_def rank_le_def walk_in_def less_char_def)

subsection \<open>Decimal digits\<close>

lemma digit_char_code: "d < 10 \<Longrightarrow> of_char (digit_char d) = (48 + d :: nat)"
proof -
  assume "d < 10"
  then have "d \<in> {0, 1, 2, 3, 4, 5, 6, 7, 8, 9}" by auto
  then show ?thesis by (auto simp: digit_char_def)
qed

lemma is_digit_digit_char: "d < 10 \<Longrightarrow> is_digit (digit_char d)"
  by (simp add: is_digit_def digit_char_code)

lemma is_digit_dec: "ch \<in> set (dec n) \<Longrightarrow> is_digit ch"
proof (induction n rule: dec.induct)
  case (1 n)
  then show ?case
    by (subst (asm) dec.simps) (auto simp: is_digit_digit_char split: if_splits)
qed

lemma dec_nonempty: "dec n \<noteq> []"
  by (subst dec.simps) simp

lemma is_digit_zfill: "ch \<in> set (zfill w (dec n)) \<Longrightarrow> is_digit ch"
proof -
  have "is_digit CHR ''0''" by (simp add: is_digit_def)
  then show "ch \<in> set (zfill w (dec n)) \<Longrightarrow> is_digit ch"
    by (auto simp: zfill_def is_digit_dec)
qed

lemma foldl_digits_dec:
  "foldl (\<lambda>a ch. a * 10 + (of_char ch - 48)) acc (dec n) = acc * 10 ^ length (dec n) + n"
proof (induction n arbitrary: acc rule: dec.induct)
  case (1 n)
  show ?case
  proof (cases "n < 10")
    case True
    then show ?thesis by (subst (1 2) dec.simps) (simp add: digit_char_code)
  next
    case False
    have "foldl (\<lambda>a ch. a * 10 + (of_char ch - 48)) acc (dec n) =
        (acc * 10 ^ length (dec (n div 10)) + n div 10) * 10 + n mod 10"
      using False 1 [OF False, of acc]
      by (subst dec.simps) (simp add: digit_char_code)
    also have "\<dots> = acc * 10 ^ length (dec n) + n"
      using False by (subst (2) dec.simps) (simp add: algebra_simps)
    finally show ?thesis .
  qed
qed

lemma foldl_digits_zeros:
  "foldl (\<lambda>a ch. a * 10 + (of_char ch - 48)) 0 (replicate k CHR ''0'') = (0::nat)"
  by (induction k) simp_all

lemma decimal_value_zfill: "decimal_value (zfill w (dec n)) = n"
  by (simp add: decimal_value_def zfill_def foldl_digits_zeros foldl_digits_dec)

lemma format_0d_inj:
  assumes "format_0d w (int i) = format_0d w (int j)"
  shows "i = j"
proof -
  have "zfill w (dec i) = zfill w (dec j)" using assms by (simp add: format_0d_def)
  then have "decimal_value (zfill w (dec i)) = decimal_value (zfill w (dec j))"
    by (rule arg_cong)
  then show ?thesis by (simp only: decimal_value_zfill)
qed


subsection \<open>Patient identifiers\<close>

lemma digit_not_space: "is_digit ch \<Longrightarrow> \<not> is_space ch"
  by (auto simp: is_digit_def is_space_def)

lemma strip_no_space: "\<forall>ch \<in> set s. \<not> is_space ch \<Longrightarrow> strip s = s"
proof -
  assume a: "\<forall>ch \<in> set s. \<not> is_space ch"
  then have "dropWhile is_space s = s" by (cases s) auto
  moreover from a have "dropWhile is_space (rev s) = rev s" by (cases "rev s") auto
  ultimately show ?thesis by (simp add: strip_def)
qed

lemma replace_no_P: "CHR ''P'' \<notin> set s \<Longrightarrow> replace s ''PAT'' new = s"
  by (induction s) (auto simp: startswith_def)

lemma replace_PAT_prefix:
  "CHR ''P'' \<notin> set ds \<Longrightarrow> replace (''PAT'' @ ds) ''PAT'' [] = ds"
  by (simp add: startswith_def replace_no_P)

lemma digit_not_P: "is_digit ch \<Longrightarrow> ch \<noteq> CHR ''P''"
  by (auto simp: is_digit_def)

lemma int_digits_all_digits:
  "\<forall>ch \<in> set ds. is_digit ch \<Longrightarrow>
     int_digits prev acc ds =
       (if prev \<or> ds \<noteq> [] then Some (foldl (\<lambda>a ch. a * 10 + (of_char ch - 48)) acc ds) else None)"
  by (induction ds arbitrary: prev acc) auto

lemma py_int_digits:
  assumes "ds \<noteq> []" "\<forall>ch \<in> set ds. is_digit ch"
  shows "py_int ds = Inr (int (decimal_value ds))"
proof -
  have s: "strip ds = ds" using assms(2) by (intro strip_no_space) (auto dest: digit_not_space)
  obtain ch cs where ds: "ds = ch # cs" using assms(1) by (cases ds) auto
  have "is_digit ch" using assms(2) ds by simp
  then have sign: "ch \<noteq> CHR ''-''" "ch \<noteq> CHR ''+''" by (auto simp: is_digit_def)
  have "int_digits False 0 (ch # cs) = Some (decimal_value ds)"
    using int_digits_all_digits [OF assms(2), of False 0] ds by (simp add: decimal_value_def)
  then show ?thesis using sign s ds by (simp add: py_int_def)
qed

lemma last_patient_greatest:
  assumes "p \<in> set patients" "\<forall>q \<in> set patients. q \<noteq> p \<longrightarrow> patient_pk q < patient_pk p"
  shows "last_patient patients = Some p"
  using assms
proof (induction patients)
  case Nil
  then show ?case by simp
next
  case (Cons r rs)
  show ?case
  proof (cases "p \<in> set rs")
    case True
    then have "last_patient rs = Some p" using Cons by auto
    moreover have "r = p \<or> patient_pk r < patient_pk p" using Cons.prems by auto
    ultimately show ?thesis by auto
  next
    case False
    then have r: "r = p" using Cons.prems by simp
    show ?thesis
    proof (cases "last_patient rs")
      case None
      then show ?thesis using r by simp
    next
      case (Some m)
      have "m \<in> set rs" using Some
        by (induction rs arbitrary: m) (auto split: option.splits if_splits)
      then have "patient_pk m < patient_pk p" using Cons.prems False by auto
      then show ?thesis using Some r by simp
    qed
  qed
qed

text \<open>
  The generation branch of the hook \<^verbatim>\<open>clean_patient_id\<close>, taken alone: for an empty
  value it reads the identifier of the patient with the greatest primary key, the one
  registered last, not the numerically highest identifier.
\<close>

lemma clean_patient_id_hook_empty_value:
  "(patients = [] \<longrightarrow> clean_patient_id patients [] = Inr ''PAT00001'')
   \<and> (\<forall>p ds. p \<in> set patients
          \<and> (\<forall>q \<in> set patients. q \<noteq> p \<longrightarrow> patient_pk q < patient_pk p)
          \<and> patient_id p = ''PAT'' @ ds \<and> ds \<noteq> [] \<and> (\<forall>ch \<in> set ds. is_digit ch) \<longrightarrow>
        clean_patient_id patients [] = Inr (''PAT'' @ format_0d 5 (int (decimal_value ds) + 1)))
   \<and> (posted \<noteq> [] \<longrightarrow> clean_patient_id patients posted = Inr posted)"
proof (intro conjI allI impI)
  show "clean_patient_id patients [] = Inr ''PAT00001''" if "patients = []"
    using that by (simp add: clean_patient_id_def)
  show "clean_patient_id patients posted = Inr posted" if "posted \<noteq> []"
    using that by (simp add: clean_patient_id_def)
  fix p ds
  assume h: "p \<in> set patients
          \<and> (\<forall>q \<in> set patients. q \<noteq> p \<longrightarrow> patient_pk q < patient_pk p)
          \<and> patient_id p = ''PAT'' @ ds \<and> ds \<noteq> [] \<and> (\<forall>ch \<in> set ds. is_digit ch)"
  then have l: "last_patient patients = Some p" by (intro last_patient_greatest) auto
  have "CHR ''P'' \<notin> set ds" using h digit_not_P by blast
  then have "replace (''PAT'' @ ds) ''PAT'' [] = ds" by (rule replace_PAT_prefix)
  then have r: "replace (patient_id p) ''PAT'' [] = ds" using h by (simp del: replace.simps)
  have "py_int ds = Inr (int (decimal_value ds))" using h by (intro py_int_digits) auto
  then show "clean_patient_id patients [] = Inr (''PAT'' @ format_0d 5 (int (decimal_value ds) + 1))"
    using l r by (simp add: clean_patient_id_def)
qed

lemma replicate_numeral: "replicate (numeral k) x = x # replicate (pred_numeral k) x"
  by (simp add: numeral_eq_Suc)

lemmas fmt_simps = zfill_def dec.simps digit_char_def format_0d_def replicate_numeral

text \<open>The form never reaches that branch: the hook only gets values that are not empty.\<close>

lemma patient_id_field_clean_nonempty: "patient_id_field_clean posted = Inr v \<Longrightarrow> v \<noteq> []"
  by (auto simp: patient_id_field_clean_def Let_def split: if_splits)

lemma patient_id_never_generated:
  "PatientForm_clean_field_patient_id patients posted =
     (case patient_id_field_clean posted of
        Inl messages \<Rightarrow> Inr (Inl messages)
      | Inr v \<Rightarrow> Inr (Inr v))"
proof (cases "patient_id_field_clean posted")
  case (Inl messages)
  then show ?thesis by (simp add: PatientForm_clean_field_patient_id_def)
next
  case (Inr v)
  then have "v \<noteq> []" by (rule patient_id_field_clean_nonempty)
  then have "clean_patient_id patients v = Inr v" by (simp add: clean_patient_id_def)
  then show ?thesis using Inr by (simp add: PatientForm_clean_field_patient_id_def)
qed

text \<open>
  Claim C9. The form does not generate a patient identifier. With the field left empty,
  the cleaning of the required field records the message that the field is required and
  the hook that would generate the identifier is not called, whatever the table holds:
  with no patients, where the claim gives \<^verbatim>\<open>PAT00001\<close>, and with \<^verbatim>\<open>PAT00009\<close> and
  \<^verbatim>\<open>PAT00003\<close> registered, where the claim gives \<^verbatim>\<open>PAT00010\<close>.
\<close>

theorem patient_id_left_empty_is_refused:
  "PatientForm_clean_field_patient_id [] (Some []) = Inr (Inl [''This field is required.''])
   \<and> PatientForm_clean_field_patient_id [] None = Inr (Inl [''This field is required.''])
   \<and> PatientForm_clean_field_patient_id two_patients (Some []) =
       Inr (Inl [''This field is required.''])
   \<and> PatientForm_clean_field_patient_id two_patients (Some ''  '') =
       Inr (Inl [''This field is required.''])
   \<and> highest_suffix_patient_id [] = ''PAT00001''
   \<and> highest_suffix_patient_id two_patients = ''PAT00010''"
  by (simp add: PatientForm_clean_field_patient_id_def patient_id_field_clean_def strip_def
      is_space_def highest_suffix_patient_id_def two_patients_def decimal_value_def fmt_simps)

subsection \<open>Queue numbers\<close>

lemma length_dec_le: "n < 10 ^ k \<Longrightarrow> 0 < k \<Longrightarrow> length (dec n) \<le> k"
proof (induction k arbitrary: n)
  case 0
  then show ?case by simp
next
  case (Suc k)
  show ?case
  proof (cases "n < 10")
    case True
    then show ?thesis by (subst dec.simps) simp
  next
    case False
    then have k: "0 < k" using Suc.prems by (cases k) auto
    have "n div 10 < 10 ^ k" using Suc.prems by (simp add: less_mult_imp_div_less)
    then have "length (dec (n div 10)) \<le> k" using k by (rule Suc.IH)
    then show ?thesis using False by (subst dec.simps) simp
  qed
qed

lemma length_zfill: "length (zfill w s) = max w (length s)"
  by (simp add: zfill_def)

lemma length_zfill_dec: "n < 10 ^ w \<Longrightarrow> 0 < w \<Longrightarrow> length (zfill w (dec n)) = w"
  using length_dec_le [of n w] by (simp add: length_zfill)

lemma length_strftime_Ymd: "valid_date d \<Longrightarrow> length (strftime_Ymd d) = 8"
  using length_zfill_dec [of "year d" 4] length_zfill_dec [of "month d" 2]
    length_zfill_dec [of "day d" 2]
  by (simp add: valid_date_def strftime_Ymd_def)

lemma strftime_Ymd_inj:
  assumes "valid_date d" "valid_date e" "strftime_Ymd d = strftime_Ymd e"
  shows "d = e"
proof -
  have l: "length (zfill 4 (dec (year d))) = length (zfill 4 (dec (year e)))"
    "length (zfill 2 (dec (month d))) = length (zfill 2 (dec (month e)))"
    using assms(1,2) length_zfill_dec [of "year d" 4] length_zfill_dec [of "year e" 4]
      length_zfill_dec [of "month d" 2] length_zfill_dec [of "month e" 2]
    by (simp_all add: valid_date_def)
  from assms(3) l have "zfill 4 (dec (year d)) = zfill 4 (dec (year e))
      \<and> zfill 2 (dec (month d)) = zfill 2 (dec (month e))
      \<and> zfill 2 (dec (day d)) = zfill 2 (dec (day e))"
    by (simp add: strftime_Ymd_def)
  then have "decimal_value (zfill 4 (dec (year d))) = decimal_value (zfill 4 (dec (year e)))"
    "decimal_value (zfill 2 (dec (month d))) = decimal_value (zfill 2 (dec (month e)))"
    "decimal_value (zfill 2 (dec (day d))) = decimal_value (zfill 2 (dec (day e)))"
    by simp_all
  then have "year d = year e" "month d = month e" "day d = day e"
    by (simp_all only: decimal_value_zfill)
  then show ?thesis by simp
qed

lemma queue_number_inj:
  assumes "valid_date d" "valid_date e"
    and "''Q'' @ strftime_Ymd d @ format_0d 3 (int i) = ''Q'' @ strftime_Ymd e @ format_0d 3 (int j)"
  shows "d = e \<and> i = j"
proof -
  have "length (strftime_Ymd d) = length (strftime_Ymd e)"
    using assms(1,2) by (simp add: length_strftime_Ymd)
  with assms(3) have "strftime_Ymd d = strftime_Ymd e" "format_0d 3 (int i) = format_0d 3 (int j)"
    by simp_all
  then show ?thesis using assms(1,2) strftime_Ymd_inj format_0d_inj by blast
qed


lemma enqueue_step:
  assumes v: "\<forall>q \<in> set queue. valid_date (queue_date q)"
    and n: "\<forall>d. map queue_number (filter (\<lambda>q. queue_date q = d) queue) =
              map (\<lambda>i. ''Q'' @ strftime_Ymd d @ format_0d 3 (int i))
                [1..<Suc (length (filter (\<lambda>q. queue_date q = d) queue))]"
    and t: "valid_date today"
  shows "\<exists>e. enqueue c today form who queue = Inr (queue @ [e]) \<and> queue_date e = today
     \<and> queue_number e = ''Q'' @ strftime_Ymd today
          @ format_0d 3 (int (Suc (length (filter (\<lambda>q. queue_date q = today) queue))))"
proof -
  let ?n = "length (filter (\<lambda>q. queue_date q = today) queue)"
  let ?num = "''Q'' @ strftime_Ymd today @ format_0d 3 (int (Suc ?n))"
  have gen: "generate_queue_number today queue = ?num"
    by (simp add: generate_queue_number_def add.commute)
  have fresh: "\<not> list_ex (\<lambda>q. queue_number q = ?num) queue"
  proof
    assume "list_ex (\<lambda>q. queue_number q = ?num) queue"
    then obtain q where q: "q \<in> set queue" "queue_number q = ?num"
      by (auto simp: list_ex_iff)
    let ?d = "queue_date q"
    have "queue_number q \<in> set (map queue_number (filter (\<lambda>x. queue_date x = ?d) queue))"
      using q(1) by simp
    then have "queue_number q \<in> set (map (\<lambda>i. ''Q'' @ strftime_Ymd ?d @ format_0d 3 (int i))
                [1..<Suc (length (filter (\<lambda>x. queue_date x = ?d) queue))])"
      using n by simp
    then have "queue_number q \<in> (\<lambda>i. ''Q'' @ strftime_Ymd ?d @ format_0d 3 (int i)) `
                set [1..<Suc (length (filter (\<lambda>x. queue_date x = ?d) queue))]"
      by (simp only: set_map)
    then obtain i where i0: "i \<in> set [1..<Suc (length (filter (\<lambda>x. queue_date x = ?d) queue))]"
      and i2: "queue_number q = ''Q'' @ strftime_Ymd ?d @ format_0d 3 (int i)"
      by (rule imageE)
    have i1: "i \<le> length (filter (\<lambda>x. queue_date x = ?d) queue)" using i0 by auto
    have "valid_date ?d" using v q(1) by simp
    moreover have "''Q'' @ strftime_Ymd ?d @ format_0d 3 (int i) = ?num"
      using i2 q(2) by simp
    ultimately have "?d = today \<and> i = Suc ?n" using t by (intro queue_number_inj)
    then show False using i1 by simp
  qed
  show ?thesis
    using gen fresh
    by (simp add: enqueue_def queue_insert_def QueueForm_save_def)
qed

lemma numbering_snoc:
  assumes n: "\<forall>d. map queue_number (filter (\<lambda>q. queue_date q = d) queue) =
              map (\<lambda>i. ''Q'' @ strftime_Ymd d @ format_0d 3 (int i))
                [1..<Suc (length (filter (\<lambda>q. queue_date q = d) queue))]"
    and e: "queue_number e = ''Q'' @ strftime_Ymd (queue_date e)
          @ format_0d 3 (int (Suc (length (filter (\<lambda>q. queue_date q = queue_date e) queue))))"
  shows "\<forall>d. map queue_number (filter (\<lambda>q. queue_date q = d) (queue @ [e])) =
              map (\<lambda>i. ''Q'' @ strftime_Ymd d @ format_0d 3 (int i))
                [1..<Suc (length (filter (\<lambda>q. queue_date q = d) (queue @ [e])))]"
proof
  fix d
  show "map queue_number (filter (\<lambda>q. queue_date q = d) (queue @ [e])) =
              map (\<lambda>i. ''Q'' @ strftime_Ymd d @ format_0d 3 (int i))
                [1..<Suc (length (filter (\<lambda>q. queue_date q = d) (queue @ [e])))]"
  proof (cases "queue_date e = d")
    case True
    then show ?thesis using n [rule_format, of d] e by simp
  next
    case False
    then show ?thesis using n [rule_format, of d] by simp
  qed
qed

lemma enqueue_all_numbering:
  assumes "\<forall>q \<in> set queue. valid_date (queue_date q)"
    and "\<forall>d. map queue_number (filter (\<lambda>q. queue_date q = d) queue) =
              map (\<lambda>i. ''Q'' @ strftime_Ymd d @ format_0d 3 (int i))
                [1..<Suc (length (filter (\<lambda>q. queue_date q = d) queue))]"
    and "\<forall>r \<in> set reqs. valid_date (fst (snd r))"
  shows "\<exists>queue'. enqueue_all reqs queue = Inr queue'
     \<and> map queue_date queue' = map queue_date queue @ map (\<lambda>r. fst (snd r)) reqs
     \<and> (\<forall>d. map queue_number (filter (\<lambda>q. queue_date q = d) queue') =
              map (\<lambda>i. ''Q'' @ strftime_Ymd d @ format_0d 3 (int i))
                [1..<Suc (length (filter (\<lambda>q. queue_date q = d) queue'))])"
  using assms
proof (induction reqs arbitrary: queue)
  case Nil
  then show ?case by simp
next
  case (Cons r reqs)
  obtain c today form who where r: "r = (c, today, form, who)" by (cases r) auto
  have t: "valid_date today" using Cons.prems(3) r by simp
  from enqueue_step [OF Cons.prems(1,2) t, of c form who]
  obtain e where e: "enqueue c today form who queue = Inr (queue @ [e])" "queue_date e = today"
    "queue_number e = ''Q'' @ strftime_Ymd today
          @ format_0d 3 (int (Suc (length (filter (\<lambda>q. queue_date q = today) queue))))"
    by blast
  have v': "\<forall>q \<in> set (queue @ [e]). valid_date (queue_date q)"
    using Cons.prems(1) t e(2) by simp
  have n': "\<forall>d. map queue_number (filter (\<lambda>q. queue_date q = d) (queue @ [e])) =
              map (\<lambda>i. ''Q'' @ strftime_Ymd d @ format_0d 3 (int i))
                [1..<Suc (length (filter (\<lambda>q. queue_date q = d) (queue @ [e])))]"
  proof (rule numbering_snoc [OF Cons.prems(2)])
    show "queue_number e = ''Q'' @ strftime_Ymd (queue_date e)
          @ format_0d 3 (int (Suc (length (filter (\<lambda>q. queue_date q = queue_date e) queue))))"
      using e(3) unfolding e(2) .
  qed
  have r': "\<forall>r \<in> set reqs. valid_date (fst (snd r))" using Cons.prems(3) by simp
  from Cons.IH [OF v' n' r'] obtain queue' where
    "enqueue_all reqs (queue @ [e]) = Inr queue'"
    "map queue_date queue' = map queue_date (queue @ [e]) @ map (\<lambda>r. fst (snd r)) reqs"
    "\<forall>d. map queue_number (filter (\<lambda>q. queue_date q = d) queue') =
              map (\<lambda>i. ''Q'' @ strftime_Ymd d @ format_0d 3 (int i))
                [1..<Suc (length (filter (\<lambda>q. queue_date q = d) queue'))]"
    by blast
  then show ?case using e(1,2) r by simp
qed

lemma length_format_0d_3: "i \<le> 999 \<Longrightarrow> length (format_0d 3 (int i)) = 3"
  using length_zfill_dec [of i 3] by (simp add: format_0d_def)

text \<open>
  Claim C8. Under sequential enqueue into a table that starts empty and from which
  nothing is deleted, every enqueue succeeds, and the entries of each calendar date
  carry, in the order of their insertion, the numbers \<^verbatim>\<open>Q\<close>, the date as eight digits
  and the sequence number 1, 2, 3, ... zero-padded to three digits: the sequence starts
  at 1 on each date and increases by one with every entry of that date. The date is
  printed on eight characters, the sequence number on three up to 999.
\<close>

theorem generate_queue_number_sequential:
  assumes "\<forall>r \<in> set reqs. valid_date (fst (snd r))"
  shows "\<exists>queue. enqueue_all reqs [] = Inr queue
     \<and> map queue_date queue = map (\<lambda>r. fst (snd r)) reqs
     \<and> (\<forall>d. map queue_number (filter (\<lambda>q. queue_date q = d) queue) =
              map (\<lambda>i. ''Q'' @ strftime_Ymd d @ format_0d 3 (int i))
                [1..<Suc (length (filter (\<lambda>r. fst (snd r) = d) reqs))])
     \<and> (\<forall>d. valid_date d \<longrightarrow> length (strftime_Ymd d) = 8)
     \<and> (\<forall>i \<le> 999. length (format_0d 3 (int i)) = 3)
     \<and> (\<forall>today q. generate_queue_number today q =
          ''Q'' @ strftime_Ymd today
            @ format_0d 3 (int (length (filter (\<lambda>e. queue_date e = today) q)) + 1))"
proof -
  from enqueue_all_numbering [of "[]" reqs] assms obtain queue where
    q: "enqueue_all reqs [] = Inr queue"
    "map queue_date queue = map (\<lambda>r. fst (snd r)) reqs"
    "\<forall>d. map queue_number (filter (\<lambda>q. queue_date q = d) queue) =
              map (\<lambda>i. ''Q'' @ strftime_Ymd d @ format_0d 3 (int i))
                [1..<Suc (length (filter (\<lambda>q. queue_date q = d) queue))]"
    by auto
  have "length (filter (\<lambda>q. queue_date q = d) queue) = length (filter (\<lambda>r. fst (snd r) = d) reqs)"
    for d
  proof -
    have "length (filter (\<lambda>q. queue_date q = d) queue)
        = length (filter (\<lambda>x. x = d) (map queue_date queue))"
      by (simp add: filter_map o_def)
    also have "\<dots> = length (filter (\<lambda>r. fst (snd r) = d) reqs)"
      unfolding q(2) by (simp add: filter_map o_def)
    finally show ?thesis .
  qed
  with q have "enqueue_all reqs [] = Inr queue
     \<and> map queue_date queue = map (\<lambda>r. fst (snd r)) reqs
     \<and> (\<forall>d. map queue_number (filter (\<lambda>q. queue_date q = d) queue) =
              map (\<lambda>i. ''Q'' @ strftime_Ymd d @ format_0d 3 (int i))
                [1..<Suc (length (filter (\<lambda>r. fst (snd r) = d) reqs))])"
    by simp
  moreover have "\<forall>today q. generate_queue_number today q =
          ''Q'' @ strftime_Ymd today
            @ format_0d 3 (int (length (filter (\<lambda>e. queue_date e = today) q)) + 1)"
    by (simp add: generate_queue_number_def)
  ultimately show ?thesis
    using length_strftime_Ymd length_format_0d_3 by blast
qed


lemmas queue_number_simps = strftime_Ymd_def fmt_simps

theorem generate_queue_number_sequential_witness:
  "\<exists>queue. enqueue_all three_requests [] = Inr queue
     \<and> map queue_number (filter (\<lambda>q. queue_date q = jan15) queue)
         = [''Q20250115001'', ''Q20250115002'']
     \<and> map queue_number (filter (\<lambda>q. queue_date q = feb01) queue) = [''Q20250201001'']"
proof -
  have v: "\<forall>r \<in> set three_requests. valid_date (fst (snd r))"
    by (simp add: three_requests_def Let_def valid_date_def jan15_def feb01_def)
  have 1: "map (\<lambda>i. ''Q'' @ strftime_Ymd jan15 @ format_0d 3 (int i))
                [1..<Suc (length (filter (\<lambda>r. fst (snd r) = jan15) three_requests))]
       = [''Q20250115001'', ''Q20250115002'']"
    by (simp add: three_requests_def Let_def jan15_def feb01_def queue_number_simps upt_rec)
  have 2: "map (\<lambda>i. ''Q'' @ strftime_Ymd feb01 @ format_0d 3 (int i))
                [1..<Suc (length (filter (\<lambda>r. fst (snd r) = feb01) three_requests))]
       = [''Q20250201001'']"
    by (simp add: three_requests_def Let_def jan15_def feb01_def queue_number_simps upt_rec)
  from generate_queue_number_sequential [OF v] obtain queue where
    "enqueue_all three_requests [] = Inr queue"
    "\<forall>d. map queue_number (filter (\<lambda>q. queue_date q = d) queue) =
              map (\<lambda>i. ''Q'' @ strftime_Ymd d @ format_0d 3 (int i))
                [1..<Suc (length (filter (\<lambda>r. fst (snd r) = d) three_requests))]"
    by blast
  then show ?thesis unfolding 1 [symmetric] 2 [symmetric] by blast
qed

subsection \<open>Rescheduling\<close>

lemma pk_less_next_pk: "a \<in> set appts \<Longrightarrow> pk a < next_pk appts"
proof -
  assume "a \<in> set appts"
  then have "pk a \<in> set (0 # map pk appts)" by simp
  then have le: "pk a \<le> Max (set (0 # map pk appts))" by (intro Max_ge) auto
  have eq: "Max (set (0 # map pk appts)) = fold max (map pk appts) 0" by (rule Max.set_eq_fold)
  from le eq show ?thesis unfolding next_pk_def by linarith
qed

lemma get_object_in_set: "get_object appts k = Some a \<Longrightarrow> a \<in> set appts"
  by (auto simp: get_object_def find_Some_iff)

lemma get_object_next_pk: "get_object appts (next_pk appts) = None"
  using pk_less_next_pk by (fastforce simp: get_object_def find_None_iff)

lemma get_object_append:
  "get_object (xs @ ys) k = (case get_object xs k of None \<Rightarrow> get_object ys k | Some a \<Rightarrow> Some a)"
  by (induction xs) (auto simp: get_object_def)

lemma objects_create_Inr:
  assumes "objects_create c appts orig d t = Inr (row, appts1)"
  shows "appts1 = appts @ [row]" "pk row = next_pk appts" "patient row = patient orig"
    "doctor row = doctor orig" "duration row = duration orig"
    "appointment_type row = appointment_type orig" "reason_for_visit row = reason_for_visit orig"
    "rescheduled_from row = Some (pk orig)" "appointment_date row = d" "appointment_time row = t"
    "status row = Scheduled"
  using assms by (auto simp: objects_create_def Let_def split: if_splits)

lemma reschedule_success:
  assumes g: "get_object appts k = Some a"
    and v: "reschedule_appointment_view c today rng appts method new_date new_time posted_reason k
             = Inr (r, [(Msg_success, text)], appts')"
  shows "\<exists>d t reason created appts1.
      new_date = Some d \<and> new_time = Some t \<and> can_reschedule c a
      \<and> objects_create c appts a d t = Inr (created, appts1)
      \<and> r = Redirect ''frontdesk:appointment_detail'' (Some (pk created))
      \<and> appts' = save c (a\<lparr>status := Rescheduled,
                    notes_text := ''Rescheduled to '' @ date_isoformat (appointment_date created)
                                   @ '' '' @ time_isoformat (appointment_time created)
                                   @ ''. Reason: '' @ reason\<rparr>)
                 (save c (created\<lparr>appointment_id := generate_appointment_id today rng appts1\<rparr>) appts1)"
  using v unfolding reschedule_appointment_view_def g option.case
  by (auto simp: Let_def save_checked_def split: if_splits option.splits sum.splits prod.splits)


text \<open>
  Claim C3. When the reschedule view reports success for an appointment, the
  appointment was scheduled or confirmed and not past, and the table has one row more:
  a new appointment with a fresh primary key, with the patient, doctor, duration, type
  and reason of the original, with the posted date and time, and with
  \<^verbatim>\<open>rescheduled_from\<close> pointing to the original. The original is still in the table
  with the status rescheduled and with its doctor, date and time as before; only its
  status, its notes and its time of update have changed, and every other row is as it
  was.
\<close>

theorem reschedule_keeps_original_and_links_copy:
  assumes g: "get_object appts k = Some a"
    and v: "reschedule_appointment_view c today rng appts method new_date new_time posted_reason k
             = Inr (r, [(Msg_success, text)], appts')"
  shows "status a \<in> {Scheduled, Confirmed} \<and> \<not> is_past c a
    \<and> (\<exists>b. r = Redirect ''frontdesk:appointment_detail'' (Some (pk b))
          \<and> get_object appts (pk b) = None
          \<and> get_object appts' (pk b) = Some b
          \<and> patient b = patient a \<and> doctor b = doctor a \<and> duration b = duration a
          \<and> appointment_type b = appointment_type a
          \<and> reason_for_visit b = reason_for_visit a
          \<and> rescheduled_from b = Some k
          \<and> new_date = Some (appointment_date b) \<and> new_time = Some (appointment_time b)
          \<and> status b = Scheduled
          \<and> (\<forall>j. j \<noteq> k \<and> j \<noteq> pk b \<longrightarrow> get_object appts' j = get_object appts j))
    \<and> (\<exists>a'. get_object appts' k = Some a' \<and> status a' = Rescheduled
          \<and> doctor a' = doctor a \<and> appointment_date a' = appointment_date a
          \<and> appointment_time a' = appointment_time a
          \<and> (\<exists>note. a' = a\<lparr>status := Rescheduled, notes_text := note,
                               updated_at := timezone_now c\<rparr>))
    \<and> length appts' = Suc (length appts)"
proof -
  from reschedule_success [OF g v] obtain d t reason created appts1 where
    nd: "new_date = Some d" and nt: "new_time = Some t" and can: "can_reschedule c a"
    and cr: "objects_create c appts a d t = Inr (created, appts1)"
    and r: "r = Redirect ''frontdesk:appointment_detail'' (Some (pk created))"
    and res: "appts' = save c (a\<lparr>status := Rescheduled,
                    notes_text := ''Rescheduled to '' @ date_isoformat (appointment_date created)
                                   @ '' '' @ time_isoformat (appointment_time created)
                                   @ ''. Reason: '' @ reason\<rparr>)
                 (save c (created\<lparr>appointment_id := generate_appointment_id today rng appts1\<rparr>) appts1)"
    by blast
  note f = objects_create_Inr [OF cr]
  let ?n = "pk created"
  let ?new = "created\<lparr>appointment_id := generate_appointment_id today rng appts1\<rparr>"
  let ?note = "''Rescheduled to '' @ date_isoformat (appointment_date created)
                                   @ '' '' @ time_isoformat (appointment_time created)
                                   @ ''. Reason: '' @ reason"
  let ?old = "a\<lparr>status := Rescheduled, notes_text := ?note\<rparr>"
  let ?appts2 = "save c ?new appts1"
  let ?b = "?new\<lparr>updated_at := timezone_now c\<rparr>"
  have ka: "pk a = k" using g by (rule get_object_pk)
  have "k < ?n" using pk_less_next_pk [OF get_object_in_set [OF g]] ka f(2) by simp
  then have kn: "k \<noteq> ?n" by simp
  have none: "get_object appts ?n = None" using get_object_next_pk [of appts] f(2) by simp
  have g1k: "get_object appts1 k = Some a"
    unfolding f(1) by (simp add: get_object_append g)
  have g1n: "get_object appts1 ?n = Some created"
    unfolding f(1) by (simp add: get_object_append none) (simp add: get_object_def)
  have g2k: "get_object ?appts2 k = Some a"
    using get_object_save_other [of k ?new c appts1] kn g1k by simp
  have g2n: "get_object ?appts2 ?n = Some ?b"
    using get_object_save_same [OF g1n, of ?new c] by simp
  have g3k: "get_object appts' k = Some (?old\<lparr>updated_at := timezone_now c\<rparr>)"
    unfolding res using get_object_save_same [OF g2k, of ?old c] ka by simp
  have g3n: "get_object appts' ?n = Some ?b"
    unfolding res using get_object_save_other [of ?n ?old c ?appts2] kn ka g2n by simp
  have other: "get_object appts' j = get_object appts j" if "j \<noteq> k" "j \<noteq> ?n" for j
  proof -
    have "get_object appts' j = get_object ?appts2 j"
      unfolding res using get_object_save_other [of j ?old c ?appts2] that(1) ka by simp
    also have "\<dots> = get_object appts1 j"
      using get_object_save_other [of j ?new c appts1] that(2) by simp
    also have "\<dots> = get_object appts j"
      unfolding f(1) using that(2)
      by (simp add: get_object_append split: option.splits) (simp add: get_object_def)
    finally show ?thesis .
  qed
  have len: "length appts' = Suc (length appts)"
    unfolding res f(1) by (simp add: length_save)
  have 1: "status a \<in> {Scheduled, Confirmed} \<and> \<not> is_past c a"
    using can by (simp add: can_reschedule_def)
  define b where "b = ?b"
  define a' where "a' = ?old\<lparr>updated_at := timezone_now c\<rparr>"
  have 2: "r = Redirect ''frontdesk:appointment_detail'' (Some (pk b))
          \<and> get_object appts (pk b) = None
          \<and> get_object appts' (pk b) = Some b
          \<and> patient b = patient a \<and> doctor b = doctor a \<and> duration b = duration a
          \<and> appointment_type b = appointment_type a
          \<and> reason_for_visit b = reason_for_visit a
          \<and> rescheduled_from b = Some k
          \<and> new_date = Some (appointment_date b) \<and> new_time = Some (appointment_time b)
          \<and> status b = Scheduled
          \<and> (\<forall>j. j \<noteq> k \<and> j \<noteq> pk b \<longrightarrow> get_object appts' j = get_object appts j)"
  proof (intro conjI allI impI)
    show "r = Redirect ''frontdesk:appointment_detail'' (Some (pk b))" using r by (simp add: b_def)
    show "get_object appts (pk b) = None" using none by (simp add: b_def)
    show "get_object appts' (pk b) = Some b" using g3n by (simp add: b_def)
    show "patient b = patient a" using f(3) by (simp add: b_def)
    show "doctor b = doctor a" using f(4) by (simp add: b_def)
    show "duration b = duration a" using f(5) by (simp add: b_def)
    show "appointment_type b = appointment_type a" using f(6) by (simp add: b_def)
    show "reason_for_visit b = reason_for_visit a" using f(7) by (simp add: b_def)
    show "rescheduled_from b = Some k" using f(8) ka by (simp add: b_def)
    show "new_date = Some (appointment_date b)" using f(9) nd by (simp add: b_def)
    show "new_time = Some (appointment_time b)" using f(10) nt by (simp add: b_def)
    show "status b = Scheduled" using f(11) by (simp add: b_def)
    show "get_object appts' j = get_object appts j" if "j \<noteq> k \<and> j \<noteq> pk b" for j
      using other [of j] that by (simp add: b_def)
  qed
  have 3: "get_object appts' k = Some a' \<and> status a' = Rescheduled
          \<and> doctor a' = doctor a \<and> appointment_date a' = appointment_date a
          \<and> appointment_time a' = appointment_time a
          \<and> (\<exists>note. a' = a\<lparr>status := Rescheduled, notes_text := note,
                               updated_at := timezone_now c\<rparr>)"
  proof (intro conjI)
    show "get_object appts' k = Some a'" using g3k by (simp add: a'_def)
    show "status a' = Rescheduled" by (simp add: a'_def)
    show "doctor a' = doctor a" by (simp add: a'_def)
    show "appointment_date a' = appointment_date a" by (simp add: a'_def)
    show "appointment_time a' = appointment_time a" by (simp add: a'_def)
    have "a' = a\<lparr>status := Rescheduled, notes_text := ?note, updated_at := timezone_now c\<rparr>"
      by (simp add: a'_def)
    then show "\<exists>note. a' = a\<lparr>status := Rescheduled, notes_text := note,
                               updated_at := timezone_now c\<rparr>"
      by blast
  qed
  from 2 have e2: "\<exists>b. r = Redirect ''frontdesk:appointment_detail'' (Some (pk b))
          \<and> get_object appts (pk b) = None
          \<and> get_object appts' (pk b) = Some b
          \<and> patient b = patient a \<and> doctor b = doctor a \<and> duration b = duration a
          \<and> appointment_type b = appointment_type a
          \<and> reason_for_visit b = reason_for_visit a
          \<and> rescheduled_from b = Some k
          \<and> new_date = Some (appointment_date b) \<and> new_time = Some (appointment_time b)
          \<and> status b = Scheduled
          \<and> (\<forall>j. j \<noteq> k \<and> j \<noteq> pk b \<longrightarrow> get_object appts' j = get_object appts j)"
    by (rule exI [of _ b])
  from 3 have e3: "\<exists>a'. get_object appts' k = Some a' \<and> status a' = Rescheduled
          \<and> doctor a' = doctor a \<and> appointment_date a' = appointment_date a
          \<and> appointment_time a' = appointment_time a
          \<and> (\<exists>note. a' = a\<lparr>status := Rescheduled, notes_text := note,
                               updated_at := timezone_now c\<rparr>)"
    by (rule exI [of _ a'])
  from 1 e2 e3 len show ?thesis by (intro conjI) simp_all
qed


lemma generate_appointment_id_eq:
  "generate_appointment_id today rng appts =
     (let date_str = strftime_Ymd today;
          today_count = length (filter (\<lambda>a. startswith (appointment_id a) (''APT'' @ date_str)) appts);
          candidate = ''APT'' @ date_str @ format_0d 4 (int today_count + 1)
      in if \<not> list_ex (\<lambda>a. appointment_id a = candidate) appts then candidate
         else ''APT'' @ date_str @ random_choices rng ascii_uppercase_digits 4)"
  using attempt_loop_Suc [of 99 "strftime_Ymd today" appts]
  by (simp add: generate_appointment_id_def Let_def)

text \<open>
  A run of the view: at noon of 15 January 2025 the appointment of 20 January, 09:30 is
  moved to 10:00.
\<close>

lemma reschedule_example_found: "get_object [booked_0930] 1 = Some booked_0930"
  by (simp add: get_object_def booked_0930_def example_appointment_def)

lemma reschedule_example_allowed: "can_reschedule noon_jan15 booked_0930"
  by (simp add: can_reschedule_def clock_simps example_simps)

lemma reschedule_example_reason: "CharField_clean False (Some ''patient asked'') = Some ''patient asked''"
  by (simp add: CharField_clean_def strip_def is_space_def)

lemma reschedule_example_valid: "AppointmentRescheduleForm_clean noon_jan15 [booked_0930] (Some booked_0930)
    (Some jan20) (Some 36000000000) = Inr ()"
  by (simp add: AppointmentRescheduleForm_clean_def exclude_pk_def slot_taken_def
      clock_simps example_simps)

lemma reschedule_example_created: "objects_create noon_jan15 [booked_0930] booked_0930 jan20 36000000000
    = Inr (created_row, [booked_0930, created_row])"
  by (simp add: objects_create_def unique_ok_def next_pk_def Let_def created_row_def
      timezone_now_def booked_0930_def example_appointment_def)

lemma reschedule_example_identifier: "generate_appointment_id jan15 (\<lambda>i. i) [booked_0930, created_row] = ''APT202501150002''"
  by (simp add: generate_appointment_id_eq Let_def startswith_def created_row_def
      booked_0930_def example_appointment_def jan15_def queue_number_simps)


lemma reschedule_example_saved: "save_checked noon_jan15 (created_row\<lparr>appointment_id := ''APT202501150002''\<rparr>)
     [booked_0930, created_row] =
   Inr [booked_0930,
        (example_appointment 2 ''APT202501150002'' 7 jan20 36000000000 Scheduled)
        \<lparr>rescheduled_from := Some 1, scheduled_at := utc_now noon_jan15,
         created_at := utc_now noon_jan15, updated_at := utc_now noon_jan15\<rparr>]"
  by (simp add: save_checked_def unique_ok_def save_def created_row_def timezone_now_def
      booked_0930_def example_appointment_def)

lemma reschedule_example_texts: "date_isoformat jan20 = ''2025-01-20''" "time_isoformat 36000000000 = ''10:00:00''"
  by (simp_all add: date_isoformat_def time_isoformat_def jan20_def Let_def fmt_simps)

lemma reschedule_example_fields: "appointment_date created_row = jan20" "appointment_time created_row = 36000000000"
  "pk created_row = 2" "pk booked_0930 = 1"
  by (simp_all add: created_row_def booked_0930_def example_appointment_def)

lemma reschedule_example_view:
  "reschedule_appointment_view noon_jan15 jan15 (\<lambda>i. i) [booked_0930] POST (Some jan20)
       (Some 36000000000) (Some ''patient asked'') 1
     = Inr (Redirect ''frontdesk:appointment_detail'' (Some 2),
            [(Msg_success,
              ''Appointment rescheduled successfully! New appointment ID: APT202501150002'')],
            rescheduled_rows)"
proof -
  have s: "save noon_jan15
       (booked_0930\<lparr>status := Rescheduled,
          notes_text := ''Rescheduled to 2025-01-20 10:00:00. Reason: patient asked''\<rparr>)
       [booked_0930,
        (example_appointment 2 ''APT202501150002'' 7 jan20 36000000000 Scheduled)
        \<lparr>rescheduled_from := Some 1, scheduled_at := utc_now noon_jan15,
         created_at := utc_now noon_jan15, updated_at := utc_now noon_jan15\<rparr>]
      = rescheduled_rows"
    by (simp add: save_def rescheduled_rows_def timezone_now_def booked_0930_def
        example_appointment_def)
  show ?thesis
    unfolding reschedule_appointment_view_def reschedule_example_found option.case
    using reschedule_example_allowed reschedule_example_reason reschedule_example_valid reschedule_example_created reschedule_example_identifier reschedule_example_saved reschedule_example_texts reschedule_example_fields s
    by (simp add: Let_def)
qed


theorem reschedule_keeps_original_and_links_copy_witness:
  "reschedule_appointment_view noon_jan15 jan15 (\<lambda>i. i) [booked_0930] POST (Some jan20)
       (Some 36000000000) (Some ''patient asked'') 1
     = Inr (Redirect ''frontdesk:appointment_detail'' (Some 2),
            [(Msg_success,
              ''Appointment rescheduled successfully! New appointment ID: APT202501150002'')],
            rescheduled_rows)
   \<and> (status booked_0930 \<in> {Scheduled, Confirmed} \<and> \<not> is_past noon_jan15 booked_0930
    \<and> (\<exists>b. Redirect ''frontdesk:appointment_detail'' (Some 2)
              = Redirect ''frontdesk:appointment_detail'' (Some (pk b))
          \<and> get_object [booked_0930] (pk b) = None
          \<and> get_object rescheduled_rows (pk b) = Some b
          \<and> patient b = patient booked_0930 \<and> doctor b = doctor booked_0930
          \<and> duration b = duration booked_0930
          \<and> appointment_type b = appointment_type booked_0930
          \<and> reason_for_visit b = reason_for_visit booked_0930
          \<and> rescheduled_from b = Some 1
          \<and> Some jan20 = Some (appointment_date b)
          \<and> Some 36000000000 = Some (appointment_time b)
          \<and> status b = Scheduled
          \<and> (\<forall>j. j \<noteq> 1 \<and> j \<noteq> pk b \<longrightarrow>
                get_object rescheduled_rows j = get_object [booked_0930] j))
    \<and> (\<exists>a'. get_object rescheduled_rows 1 = Some a' \<and> status a' = Rescheduled
          \<and> doctor a' = doctor booked_0930
          \<and> appointment_date a' = appointment_date booked_0930
          \<and> appointment_time a' = appointment_time booked_0930
          \<and> (\<exists>note. a' = booked_0930\<lparr>status := Rescheduled, notes_text := note,
                               updated_at := timezone_now noon_jan15\<rparr>))
    \<and> length rescheduled_rows = Suc (length [booked_0930]))"
  by (intro conjI [OF reschedule_example_view])
     (rule reschedule_keeps_original_and_links_copy
        [OF reschedule_example_found reschedule_example_view])

end
